theory Spec2Isabelle
  imports Complex_Main
begin

section \<open>JavaScript numbers\<close>

text \<open>
  The calculator computes with JavaScript numbers. A finite number is modelled by the
  rational it denotes (rounding, overflow and the sign of zero are not modelled); the
  three non-finite values are kept, because the code can produce them: a property that
  is missing from a table reads as \<open>undefined\<close>, and arithmetic with \<open>undefined\<close>
  gives \<open>NaN\<close>; division by zero gives an infinity or \<open>NaN\<close>.
  A value that may be \<open>undefined\<close> is an \<open>option\<close>.
\<close>

datatype jsnum = Fin rat | PInf | NInf | NaN

fun js_neg :: "jsnum \<Rightarrow> jsnum" where
  "js_neg (Fin a) = Fin (- a)"
| "js_neg PInf = NInf"
| "js_neg NInf = PInf"
| "js_neg NaN = NaN"

fun js_add :: "jsnum \<Rightarrow> jsnum \<Rightarrow> jsnum" where
  "js_add NaN y = NaN"
| "js_add (Fin a) NaN = NaN"
| "js_add (Fin a) (Fin b) = Fin (a + b)"
| "js_add (Fin a) PInf = PInf"
| "js_add (Fin a) NInf = NInf"
| "js_add PInf NaN = NaN"
| "js_add PInf NInf = NaN"
| "js_add PInf (Fin b) = PInf"
| "js_add PInf PInf = PInf"
| "js_add NInf NaN = NaN"
| "js_add NInf PInf = NaN"
| "js_add NInf (Fin b) = NInf"
| "js_add NInf NInf = NInf"

definition js_sub :: "jsnum \<Rightarrow> jsnum \<Rightarrow> jsnum" where
  "js_sub x y = js_add x (js_neg y)"

text \<open>The sign of a product with an infinity; zero times infinity is \<open>NaN\<close>.\<close>

definition signed_inf :: "rat \<Rightarrow> jsnum" where
  "signed_inf a = (if 0 < a then PInf else if a < 0 then NInf else NaN)"

fun js_mul :: "jsnum \<Rightarrow> jsnum \<Rightarrow> jsnum" where
  "js_mul NaN y = NaN"
| "js_mul (Fin a) NaN = NaN"
| "js_mul (Fin a) (Fin b) = Fin (a * b)"
| "js_mul (Fin a) PInf = signed_inf a"
| "js_mul (Fin a) NInf = signed_inf (- a)"
| "js_mul PInf NaN = NaN"
| "js_mul PInf (Fin b) = signed_inf b"
| "js_mul PInf PInf = PInf"
| "js_mul PInf NInf = NInf"
| "js_mul NInf NaN = NaN"
| "js_mul NInf (Fin b) = signed_inf (- b)"
| "js_mul NInf PInf = NInf"
| "js_mul NInf NInf = PInf"

fun js_div :: "jsnum \<Rightarrow> jsnum \<Rightarrow> jsnum" where
  "js_div NaN y = NaN"
| "js_div (Fin a) NaN = NaN"
| "js_div (Fin a) (Fin b) = (if b \<noteq> 0 then Fin (a / b) else signed_inf a)"
| "js_div (Fin a) PInf = Fin 0"
| "js_div (Fin a) NInf = Fin 0"
| "js_div PInf (Fin b) = (if 0 \<le> b then PInf else NInf)"
| "js_div NInf (Fin b) = (if 0 \<le> b then NInf else PInf)"
| "js_div PInf y = NaN"
| "js_div NInf y = NaN"

text \<open>\<open>Math.trunc\<close> on a rational, and the remainder operator \<open>%\<close>, whose result has
  the sign of the dividend.\<close>

definition trunc :: "rat \<Rightarrow> int" where
  "trunc x = (if 0 \<le> x then \<lfloor>x\<rfloor> else \<lceil>x\<rceil>)"

fun js_rem :: "jsnum \<Rightarrow> jsnum \<Rightarrow> jsnum" where
  "js_rem (Fin a) (Fin b) = (if b = 0 then NaN else Fin (a - b * of_int (trunc (a / b))))"
| "js_rem (Fin a) PInf = Fin a"
| "js_rem (Fin a) NInf = Fin a"
| "js_rem x y = NaN"

fun js_floor :: "jsnum \<Rightarrow> jsnum" where
  "js_floor (Fin a) = Fin (of_int \<lfloor>a\<rfloor>)"
| "js_floor x = x"

text \<open>The comparisons \<open>>=\<close> and \<open>>\<close>: every comparison with \<open>NaN\<close> is false.\<close>

fun js_ge :: "jsnum \<Rightarrow> jsnum \<Rightarrow> bool" where
  "js_ge NaN y = False"
| "js_ge x NaN = False"
| "js_ge (Fin a) (Fin b) = (b \<le> a)"
| "js_ge x NInf = True"
| "js_ge PInf y = True"
| "js_ge (Fin a) PInf = False"
| "js_ge NInf y = False"

fun js_gt :: "jsnum \<Rightarrow> jsnum \<Rightarrow> bool" where
  "js_gt NaN y = False"
| "js_gt x NaN = False"
| "js_gt (Fin a) (Fin b) = (b < a)"
| "js_gt NInf y = False"
| "js_gt x PInf = False"
| "js_gt PInf y = True"
| "js_gt (Fin a) NInf = True"

text \<open>\<open>Math.max\<close> of two numbers: \<open>NaN\<close> if either is \<open>NaN\<close>.\<close>

fun js_max :: "jsnum \<Rightarrow> jsnum \<Rightarrow> jsnum" where
  "js_max NaN y = NaN"
| "js_max x NaN = NaN"
| "js_max x y = (if js_ge x y then x else y)"

text \<open>Reading a possibly \<open>undefined\<close> value as a number (\<open>undefined\<close> becomes \<open>NaN\<close>),
  truthiness of a number, and the operator \<open>||\<close> with a default.\<close>

definition to_number :: "rat option \<Rightarrow> jsnum" where
  "to_number v = (case v of None \<Rightarrow> NaN | Some r \<Rightarrow> Fin r)"

fun truthy :: "jsnum option \<Rightarrow> bool" where
  "truthy None = False"
| "truthy (Some NaN) = False"
| "truthy (Some (Fin a)) = (a \<noteq> 0)"
| "truthy (Some x) = True"

definition or_default :: "jsnum option \<Rightarrow> jsnum \<Rightarrow> jsnum" where
  "or_default v d = (if truthy v then the v else d)"

section \<open>Numbers as text\<close>

definition digit_char :: "nat \<Rightarrow> char" where
  "digit_char n = ''0123456789'' ! (n mod 10)"

fun show_nat :: "nat \<Rightarrow> string" where
  "show_nat n = (if n < 10 then [digit_char n] else show_nat (n div 10) @ [digit_char n])"

declare show_nat.simps [simp del]

definition show_int :: "int \<Rightarrow> string" where
  "show_int i = (if i < 0 then CHR ''-'' # show_nat (nat (- i)) else show_nat (nat i))"

text \<open>The digits after the decimal point of a fraction \<open>p / q\<close> with \<open>0 \<le> p < q\<close>, by long
  division, at most \<open>n\<close> of them. For a number that is not a short decimal the text is an
  idealisation of what JavaScript prints for the nearest double.\<close>

fun frac_digits :: "nat \<Rightarrow> nat \<Rightarrow> nat \<Rightarrow> string" where
  "frac_digits 0 p q = []"
| "frac_digits (Suc n) p q =
     (if p = 0 then [] else digit_char (10 * p div q) # frac_digits n (10 * p mod q) q)"

definition show_rat :: "rat \<Rightarrow> string" where
  "show_rat r =
     (let a = \<bar>r\<bar>; (p, q) = quotient_of a; ip = p div q; fp = p mod q
      in (if r < 0 then ''-'' else '''') @ show_int ip @
         (if fp = 0 then [] else CHR ''.'' # frac_digits 16 (nat fp) (nat q)))"

fun js_to_string :: "jsnum \<Rightarrow> string" where
  "js_to_string (Fin r) = show_rat r"
| "js_to_string PInf = ''Infinity''"
| "js_to_string NInf = ''-Infinity''"
| "js_to_string NaN = ''NaN''"

text \<open>\<open>Array.prototype.join\<close>.\<close>

fun join :: "string \<Rightarrow> string list \<Rightarrow> string" where
  "join sep [] = []"
| "join sep [x] = x"
| "join sep (x # y # ys) = x @ sep @ join sep (y # ys)"

section \<open>Ranks (actions.js)\<close>

datatype rank = E | D | C | B | A | S

fun RANK_BONUSES :: "rank \<Rightarrow> int" where
  "RANK_BONUSES E = 0"
| "RANK_BONUSES D = 10"
| "RANK_BONUSES C = 20"
| "RANK_BONUSES B = 30"
| "RANK_BONUSES A = 40"
| "RANK_BONUSES S = 50"

text \<open>\<open>levels[rank] || 0\<close>, for a rank that passed the caller's validation.\<close>

fun getRankLevel :: "rank \<Rightarrow> int" where
  "getRankLevel E = 0"
| "getRankLevel D = 1"
| "getRankLevel C = 2"
| "getRankLevel B = 3"
| "getRankLevel A = 4"
| "getRankLevel S = 5"

fun rank_name :: "rank \<Rightarrow> string" where
  "rank_name E = ''E''"
| "rank_name D = ''D''"
| "rank_name C = ''C''"
| "rank_name B = ''B''"
| "rank_name A = ''A''"
| "rank_name S = ''S''"

text \<open>A per-rank table is an object with some of the keys \<open>E\<close> .. \<open>S\<close>. The lookup
  \<open>table[masteryRank] || table.E\<close> takes the \<open>E\<close> entry when the rank's entry is missing
  or is \<open>0\<close>, and is \<open>undefined\<close> when the \<open>E\<close> entry is missing too.\<close>

definition by_rank :: "(rank \<Rightarrow> 'a::zero option) \<Rightarrow> rank \<Rightarrow> 'a option" where
  "by_rank table r =
     (case table r of
        Some v \<Rightarrow> if v \<noteq> 0 then Some v else table E
      | None \<Rightarrow> table E)"

section \<open>Action definitions (actions.js)\<close>

text \<open>A dice count is a number or the name of a variable (\<open>'MR_LEVEL'\<close>, ...).\<close>

datatype count = Num int | Str string

record diceConfig =
  count :: count
  sides :: int
  keepHighest :: "nat option"
  keepLowest :: "nat option"
  baseDiceByRank :: "(rank \<Rightarrow> int option) option"
  diceByRank :: "(rank \<Rightarrow> int option) option"

text \<open>The \<open>extraDice\<close> and \<open>convertToDice\<close> objects of a modifier.\<close>

record diceSpec =
  ds_count :: int
  ds_sides :: int

text \<open>
  A modifier is an object with a \<open>type\<close> tag and the fields of that type. The fields are,
  in order: \<open>multiplier\<close>: baseMultiplier; \<open>threshold_multiplier\<close>: threshold,
  multiplierByRank, multiplier; \<open>success_bonus\<close>: threshold, successBonusByRank,
  bonusByRank, failureBonus; \<open>explosion\<close>: threshold, chance, extraDice;
  \<open>divisor\<close> and \<open>aoe_divisor\<close>: divisor; \<open>bonus_conversion\<close>: conversionRate,
  convertToDice; \<open>conditional\<close>: condition, value. A field that an object of the catalog
  may leave out is an \<open>option\<close>. \<open>OtherModifier\<close> is an object with any other tag.
\<close>

datatype modifier =
    Multiplier rat
  | ThresholdMultiplier rat "(rank \<Rightarrow> rat option) option" "rat option"
  | SuccessBonus rat "(rank \<Rightarrow> rat option) option" "(rank \<Rightarrow> rat option) option" "rat option"
  | Explosion rat "rat option" diceSpec
  | Divisor rat
  | AoeDivisor rat
  | BonusConversion int diceSpec
  | Conditional string rat
  | OtherModifier string

fun modifier_type :: "modifier \<Rightarrow> string" where
  "modifier_type (Multiplier bm) = ''multiplier''"
| "modifier_type (ThresholdMultiplier t mbr m) = ''threshold_multiplier''"
| "modifier_type (SuccessBonus t sbr bbr fb) = ''success_bonus''"
| "modifier_type (Explosion t ch ed) = ''explosion''"
| "modifier_type (Divisor d) = ''divisor''"
| "modifier_type (AoeDivisor d) = ''aoe_divisor''"
| "modifier_type (BonusConversion cr ctd) = ''bonus_conversion''"
| "modifier_type (Conditional c v) = ''conditional''"
| "modifier_type (OtherModifier ty) = ty"

record calculableFormula =
  dice :: "diceConfig list"
  bonuses :: "string list"
  modifiers :: "modifier list option"

record action =
  name :: string
  calculableFormula :: calculableFormula

section \<open>The die source\<close>

text \<open>
  \<open>rollDie\<close> reads \<open>Math.random()\<close>. The die source is the sequence of values that the
  coming calls of \<open>Math.random()\<close> return; a roll takes the first and leaves the rest.
\<close>

type_synonym dieSource = "nat \<Rightarrow> rat"

definition rest :: "dieSource \<Rightarrow> dieSource" where
  "rest src = (\<lambda>i. src (Suc i))"

definition rollDie :: "dieSource \<Rightarrow> int \<Rightarrow> int \<times> dieSource" where
  "rollDie src sd = (\<lfloor>src 0 * of_int sd\<rfloor> + 1, rest src)"

text \<open>The loop \<open>for (let i = 0; i < n; i++) rolls.push(this.rollDie(sides))\<close>.\<close>

fun rollTimes :: "nat \<Rightarrow> int \<Rightarrow> dieSource \<Rightarrow> int list \<times> dieSource" where
  "rollTimes 0 sd src = ([], src)"
| "rollTimes (Suc n) sd src =
     (let (r, src1) = rollDie src sd;
          (rs, src2) = rollTimes n sd src1
      in (r # rs, src2))"

section \<open>The formula calculator (formula-calculator.js)\<close>

fun resolveCountVariable :: "string \<Rightarrow> rank \<Rightarrow> rank \<Rightarrow> int" where
  "resolveCountVariable countVar weaponRank masteryRank =
     (if countVar = ''MR_LEVEL'' then getRankLevel masteryRank
      else if countVar = ''WR_LEVEL'' then getRankLevel weaponRank
      else if countVar = ''BASE_BY_RANK'' then 0
      else if countVar = ''DICE_BY_RANK'' then 0
      else 0)"

text \<open>\<open>if (keepHighest)\<close>: the field is present and not \<open>0\<close>.\<close>

fun keep_set :: "nat option \<Rightarrow> bool" where
  "keep_set None = False"
| "keep_set (Some k) = (k \<noteq> 0)"

text \<open>\<open>rolls.sort((a, b) => b - a)\<close> and \<open>rolls.sort((a, b) => a - b)\<close>; the sort is
  stable.\<close>

definition sort_desc :: "int list \<Rightarrow> int list" where
  "sort_desc rolls = sort_key (\<lambda>r. - r) rolls"

definition sort_asc :: "int list \<Rightarrow> int list" where
  "sort_asc rolls = sort_key (\<lambda>r. r) rolls"

definition rollDice :: "diceConfig \<Rightarrow> dieSource \<Rightarrow> int list \<times> dieSource" where
  "rollDice cfg src =
     (let actualCount = (case count cfg of Str v \<Rightarrow> resolveCountVariable v E E | Num n \<Rightarrow> n)
      in if actualCount \<le> 0 then ([], src)
         else
           let (rolls, src1) = rollTimes (nat actualCount) (sides cfg) src
           in if keep_set (keepHighest cfg)
                then (take (the (keepHighest cfg)) (sort_desc rolls), src1)
              else if keep_set (keepLowest cfg)
                then (take (the (keepLowest cfg)) (sort_asc rolls), src1)
              else (rolls, src1))"

text \<open>The count of a dice group as \<open>calculateActionRoll\<close> resolves it: a variable name by
  \<open>resolveCountVariable\<close>, then \<open>baseDiceByRank\<close> and \<open>diceByRank\<close>, each replacing the
  count found so far. The result is \<open>undefined\<close> when a table has neither the rank's
  entry nor an \<open>E\<close> entry.\<close>

definition resolve_count :: "diceConfig \<Rightarrow> rank \<Rightarrow> rank \<Rightarrow> int option" where
  "resolve_count cfg weaponRank masteryRank =
     (let c0 = (case count cfg of
                  Str v \<Rightarrow> Some (resolveCountVariable v weaponRank masteryRank)
                | Num n \<Rightarrow> Some n);
          c1 = (case baseDiceByRank cfg of Some t \<Rightarrow> by_rank t masteryRank | None \<Rightarrow> c0);
          c2 = (case diceByRank cfg of Some t \<Rightarrow> by_rank t masteryRank | None \<Rightarrow> c1)
      in c2)"

record diceGroup =
  g_type :: string
  g_rolls :: "int list"
  g_sum :: int
  g_keepHighest :: "nat option"
  g_keepLowest :: "nat option"

text \<open>The loop over \<open>calculableFormula.dice\<close>. Its state is \<open>totalResult\<close>,
  \<open>rawDiceTotal\<close>, \<open>diceGroups\<close> and the die source; \<open>count > 0\<close> is false for an
  \<open>undefined\<close> count.\<close>

fun dice_loop :: "diceConfig list \<Rightarrow> rank \<Rightarrow> rank \<Rightarrow> int \<Rightarrow> int \<Rightarrow> diceGroup list \<Rightarrow> dieSource
    \<Rightarrow> int \<times> int \<times> diceGroup list \<times> dieSource" where
  "dice_loop [] weaponRank masteryRank totalResult rawDiceTotal diceGroups src =
     (totalResult, rawDiceTotal, diceGroups, src)"
| "dice_loop (cfg # cfgs) weaponRank masteryRank totalResult rawDiceTotal diceGroups src =
     (case resolve_count cfg weaponRank masteryRank of
        None \<Rightarrow> dice_loop cfgs weaponRank masteryRank totalResult rawDiceTotal diceGroups src
      | Some c \<Rightarrow>
          if c > 0 then
            let (diceRolls, src1) = rollDice (cfg\<lparr>count := Num c\<rparr>) src;
                diceSum = sum_list diceRolls;
                diceGroup = \<lparr>g_type = show_int c @ ''d'' @ show_int (sides cfg),
                             g_rolls = diceRolls,
                             g_sum = diceSum,
                             g_keepHighest = keepHighest cfg,
                             g_keepLowest = keepLowest cfg\<rparr>
            in dice_loop cfgs weaponRank masteryRank (totalResult + diceSum)
                 (rawDiceTotal + diceSum) (diceGroups @ [diceGroup]) src1
          else dice_loop cfgs weaponRank masteryRank totalResult rawDiceTotal diceGroups src)"

record bonusEntry =
  b_type :: string
  b_rank :: "rank option"
  b_value :: int
  b_display :: string

text \<open>The loop over \<open>calculableFormula.bonuses\<close>, with the table of rank bonuses as a
  parameter.\<close>

fun bonus_loop :: "(rank \<Rightarrow> int) \<Rightarrow> string list \<Rightarrow> rank \<Rightarrow> rank \<Rightarrow> int \<Rightarrow> bonusEntry list
    \<Rightarrow> int \<times> bonusEntry list" where
  "bonus_loop tbl [] weaponRank masteryRank totalResult bonusBreakdown =
     (totalResult, bonusBreakdown)"
| "bonus_loop tbl (bonusType # bs) weaponRank masteryRank totalResult bonusBreakdown =
     (if bonusType = ''MR'' then
        let bonus = tbl masteryRank
        in bonus_loop tbl bs weaponRank masteryRank (totalResult + bonus)
             (bonusBreakdown @ [\<lparr>b_type = ''Mastery Rank'', b_rank = Some masteryRank,
                b_value = bonus, b_display = rank_name masteryRank @ '' MR''\<rparr>])
      else if bonusType = ''WR'' then
        let bonus = tbl weaponRank
        in bonus_loop tbl bs weaponRank masteryRank (totalResult + bonus)
             (bonusBreakdown @ [\<lparr>b_type = ''Weapon Rank'', b_rank = Some weaponRank,
                b_value = bonus, b_display = rank_name weaponRank @ '' WR''\<rparr>])
      else bonus_loop tbl bs weaponRank masteryRank totalResult bonusBreakdown)"

subsection \<open>Modifiers\<close>

text \<open>What a call can end with instead of a value: a \<open>TypeError\<close> (a property read from
  \<open>undefined\<close>), or a loop whose bound is \<open>Infinity\<close> and that therefore never ends.\<close>

datatype error = TypeError | Diverges

record modifierResult =
  r_result :: jsnum
  r_details :: string
  r_multiplier :: "jsnum option"
  r_value :: "jsnum option"
  r_explosionRolls :: "int list option"

text \<open>The number of rolls that are at or above a threshold.\<close>

definition count_explosions :: "rat \<Rightarrow> int list \<Rightarrow> nat" where
  "count_explosions t rolls = length (filter (\<lambda>roll. t \<le> of_int roll) rolls)"

text \<open>The variables of the cascade loop of the \<open>explosion\<close> case.\<close>

record explosionState =
  currentExplosions :: nat
  maxIterations :: nat
  allExplosionRolls :: "int list"
  explosionTotal :: int
  totalTriggers :: nat
  es_src :: dieSource

text \<open>One round, the body of the \<open>while\<close> loop: roll one extra die for each pending
  explosion, then count the new rolls that explode in turn.\<close>

definition explosion_round :: "rat \<Rightarrow> int \<Rightarrow> explosionState \<Rightarrow> explosionState" where
  "explosion_round t sd st =
     (let (newRolls, src1) = rollTimes (currentExplosions st) sd (es_src st);
          triggered = count_explosions t newRolls
      in \<lparr>currentExplosions = triggered,
          maxIterations = maxIterations st - 1,
          allExplosionRolls = allExplosionRolls st @ newRolls,
          explosionTotal = explosionTotal st + sum_list newRolls,
          totalTriggers = totalTriggers st + triggered,
          es_src = src1\<rparr>)"

definition explosion_cond :: "explosionState \<Rightarrow> bool" where
  "explosion_cond st = (currentExplosions st > 0 \<and> maxIterations st > 0)"

function explosion_loop :: "rat \<Rightarrow> int \<Rightarrow> explosionState \<Rightarrow> explosionState" where
  "explosion_loop t sd st =
     (if explosion_cond st then explosion_loop t sd (explosion_round t sd st) else st)"
  by pat_completeness auto
termination
  by (relation "measure (\<lambda>(t, sd, st). maxIterations st)")
     (auto simp: explosion_round_def explosion_cond_def Let_def split: prod.splits)

declare explosion_loop.simps [simp del]

fun applyModifier :: "modifier \<Rightarrow> jsnum \<Rightarrow> int list \<Rightarrow> rank \<Rightarrow> rank \<Rightarrow> int \<Rightarrow> dieSource
    \<Rightarrow> error + (modifierResult \<times> dieSource)" where
  "applyModifier (Multiplier baseMultiplier) currentResult allRolls weaponRank masteryRank
      otherBonuses src =
     Inr (\<lparr>r_result = js_mul currentResult (Fin baseMultiplier),
           r_details = ''Base multiplier '' @ js_to_string (Fin baseMultiplier) @ ''x'',
           r_multiplier = Some (Fin baseMultiplier),
           r_value = Some (Fin 0),
           r_explosionRolls = None\<rparr>, src)"
| "applyModifier (ThresholdMultiplier threshold multiplierByRank multiplier) currentResult
      allRolls weaponRank masteryRank otherBonuses src =
     (if js_ge currentResult (Fin threshold) then
        let m = (case multiplierByRank of
                   Some table \<Rightarrow> by_rank table masteryRank
                 | None \<Rightarrow> multiplier)
        in Inr (\<lparr>r_result = js_mul currentResult (to_number m),
                 r_details = rank_name masteryRank @ '' Critical'',
                 r_multiplier = map_option Fin m,
                 r_value = Some (Fin 0),
                 r_explosionRolls = None\<rparr>, src)
      else
        Inr (\<lparr>r_result = currentResult,
              r_details = ''Threshold '' @ js_to_string (Fin threshold) @ '' not met'',
              r_multiplier = Some (Fin 1),
              r_value = Some (Fin 0),
              r_explosionRolls = None\<rparr>, src))"
| "applyModifier (SuccessBonus threshold successBonusByRank bonusByRank failureBonus)
      currentResult allRolls weaponRank masteryRank otherBonuses src =
     (if js_ge currentResult (Fin threshold) then
        (case (case successBonusByRank of
                 Some table \<Rightarrow> Inr (by_rank table masteryRank)
               | None \<Rightarrow>
                   (case bonusByRank of
                      Some table \<Rightarrow> Inr (by_rank table masteryRank)
                    | None \<Rightarrow> Inl TypeError)) of
           Inl err \<Rightarrow> Inl err
         | Inr bonus \<Rightarrow>
             Inr (\<lparr>r_result = js_add currentResult (to_number bonus),
                   r_details = ''Success bonus'',
                   r_multiplier = Some (Fin 1),
                   r_value = map_option Fin bonus,
                   r_explosionRolls = None\<rparr>, src))
      else if truthy (map_option Fin failureBonus) then
        Inr (\<lparr>r_result = js_add currentResult (to_number failureBonus),
              r_details = ''Consolation bonus'',
              r_multiplier = Some (Fin 1),
              r_value = map_option Fin failureBonus,
              r_explosionRolls = None\<rparr>, src)
      else
        Inr (\<lparr>r_result = currentResult,
              r_details = ''Failed threshold '' @ js_to_string (Fin threshold),
              r_multiplier = Some (Fin 1),
              r_value = Some (Fin 0),
              r_explosionRolls = None\<rparr>, src))"
| "applyModifier (Explosion threshold chance extraDice) currentResult allRolls weaponRank
      masteryRank otherBonuses src =
     (let explosions = count_explosions threshold allRolls
      in if explosions > 0 then
           let st = explosion_loop threshold (ds_sides extraDice)
                      \<lparr>currentExplosions = explosions,
                       maxIterations = 10,
                       allExplosionRolls = [],
                       explosionTotal = 0,
                       totalTriggers = explosions,
                       es_src = src\<rparr>
           in Inr (\<lparr>r_result = js_add currentResult (Fin (of_int (explosionTotal st))),
                    r_details = show_nat (totalTriggers st) @ '' explosions'',
                    r_multiplier = Some (Fin 1),
                    r_value = Some (Fin (of_int (explosionTotal st))),
                    r_explosionRolls = Some (allExplosionRolls st)\<rparr>, es_src st)
         else
           Inr (\<lparr>r_result = currentResult,
                 r_details = ''No explosions'',
                 r_multiplier = Some (Fin 1),
                 r_value = Some (Fin 0),
                 r_explosionRolls = None\<rparr>, src))"
| "applyModifier (Divisor divisor) currentResult allRolls weaponRank masteryRank otherBonuses
      src =
     Inr (\<lparr>r_result = js_floor (js_div currentResult (Fin divisor)),
           r_details = ''Divided by '' @ js_to_string (Fin divisor),
           r_multiplier = Some (js_div (Fin 1) (Fin divisor)),
           r_value = Some (Fin 0),
           r_explosionRolls = None\<rparr>, src)"
| "applyModifier (AoeDivisor divisor) currentResult allRolls weaponRank masteryRank
      otherBonuses src =
     Inr (\<lparr>r_result = currentResult,
           r_details = ''Single target'',
           r_multiplier = Some (Fin 1),
           r_value = Some (Fin 0),
           r_explosionRolls = None\<rparr>, src)"
| "applyModifier (BonusConversion conversionRate convertToDice) currentResult allRolls
      weaponRank masteryRank otherBonuses src =
     (let convertibleBonuses =
            js_floor (js_div (Fin (of_int otherBonuses)) (Fin (of_int conversionRate)));
          extraDice = js_mul convertibleBonuses (Fin (of_int (ds_count convertToDice)));
          leftoverBonus = js_rem (Fin (of_int otherBonuses)) (Fin (of_int conversionRate))
      in if js_gt extraDice (Fin 0) then
           (case extraDice of
              Fin n \<Rightarrow>
                let (conversionRolls, src1) = rollTimes (nat \<lceil>n\<rceil>) (ds_sides convertToDice) src;
                    extraTotal = Fin (of_int (sum_list conversionRolls))
                in Inr (\<lparr>r_result =
                           js_add (js_add (js_sub currentResult (Fin (of_int otherBonuses)))
                             extraTotal) leftoverBonus,
                         r_details = ''Converted '' @ js_to_string extraDice @ '' dice'',
                         r_multiplier = Some (Fin 1),
                         r_value = Some (js_sub (js_add extraTotal leftoverBonus)
                                     (Fin (of_int otherBonuses))),
                         r_explosionRolls = Some conversionRolls\<rparr>, src1)
            | _ \<Rightarrow> Inl Diverges)
         else
           Inr (\<lparr>r_result = currentResult,
                 r_details = ''No conversion'',
                 r_multiplier = Some (Fin 1),
                 r_value = Some (Fin 0),
                 r_explosionRolls = None\<rparr>, src))"
| "applyModifier (Conditional condition v) currentResult allRolls weaponRank masteryRank
      otherBonuses src =
     Inr (\<lparr>r_result = currentResult,
           r_details = ''Conditional not met'',
           r_multiplier = Some (Fin 1),
           r_value = Some (Fin 0),
           r_explosionRolls = None\<rparr>, src)"
| "applyModifier (OtherModifier ty) currentResult allRolls weaponRank masteryRank
      otherBonuses src =
     Inr (\<lparr>r_result = currentResult,
           r_details = ''Unknown modifier'',
           r_multiplier = Some (Fin 1),
           r_value = Some (Fin 0),
           r_explosionRolls = None\<rparr>, src)"

record modifierEntry =
  m_type :: string
  m_description :: string
  m_value :: jsnum
  m_multiplier :: jsnum
  m_explosionRolls :: "int list"

text \<open>The test of \<open>calculateActionRoll\<close> that decides whether a modifier gets an entry in
  \<open>modifierBreakdown\<close>: \<open>value !== 0 || multiplier !== 1 || modifier.type === 'explosion'\<close>.\<close>

definition is_recorded :: "modifier \<Rightarrow> modifierResult \<Rightarrow> bool" where
  "is_recorded m res =
     (r_value res \<noteq> Some (Fin 0) \<or> r_multiplier res \<noteq> Some (Fin 1)
      \<or> modifier_type m = ''explosion'')"

definition modifier_entry :: "modifier \<Rightarrow> modifierResult \<Rightarrow> modifierEntry" where
  "modifier_entry m res =
     \<lparr>m_type = modifier_type m,
      m_description = r_details res,
      m_value = or_default (r_value res) (Fin 0),
      m_multiplier = or_default (r_multiplier res) (Fin 1),
      m_explosionRolls = (case r_explosionRolls res of Some rs \<Rightarrow> rs | None \<Rightarrow> [])\<rparr>"

text \<open>The loop over \<open>calculableFormula.modifiers\<close>. Its state is \<open>finalResult\<close>,
  \<open>explosionRolls\<close>, \<open>modifierBreakdown\<close>, \<open>rawDiceTotal\<close> and the die source.\<close>

fun modifier_loop :: "modifier list \<Rightarrow> int list \<Rightarrow> rank \<Rightarrow> rank \<Rightarrow> int \<Rightarrow> jsnum \<Rightarrow> int list
    \<Rightarrow> modifierEntry list \<Rightarrow> int \<Rightarrow> dieSource
    \<Rightarrow> error + (jsnum \<times> int list \<times> modifierEntry list \<times> int \<times> dieSource)" where
  "modifier_loop [] allRolls weaponRank masteryRank otherBonuses finalResult explosionRolls
      modifierBreakdown rawDiceTotal src =
     Inr (finalResult, explosionRolls, modifierBreakdown, rawDiceTotal, src)"
| "modifier_loop (m # ms) allRolls weaponRank masteryRank otherBonuses finalResult
      explosionRolls modifierBreakdown rawDiceTotal src =
     (case applyModifier m finalResult allRolls weaponRank masteryRank otherBonuses src of
        Inl err \<Rightarrow> Inl err
      | Inr (res, src1) \<Rightarrow>
          if is_recorded m res then
            (case r_explosionRolls res of
               Some rs \<Rightarrow>
                 modifier_loop ms allRolls weaponRank masteryRank otherBonuses (r_result res)
                   (explosionRolls @ rs) (modifierBreakdown @ [modifier_entry m res])
                   (if modifier_type m = ''explosion'' then rawDiceTotal + sum_list rs
                    else rawDiceTotal) src1
             | None \<Rightarrow>
                 modifier_loop ms allRolls weaponRank masteryRank otherBonuses (r_result res)
                   explosionRolls (modifierBreakdown @ [modifier_entry m res])
                   rawDiceTotal src1)
          else
            modifier_loop ms allRolls weaponRank masteryRank otherBonuses (r_result res)
              explosionRolls modifierBreakdown rawDiceTotal src1)"

subsection \<open>The rendered breakdown\<close>

text \<open>The arrow and the multiplication sign of the breakdown text, as their UTF-8 bytes.\<close>

definition arrow :: string where
  "arrow = [CHR 0xE2, CHR 0x86, CHR 0x92]"

definition times_sign :: string where
  "times_sign = [CHR 0xC3, CHR 0x97]"

definition group_part :: "diceGroup \<Rightarrow> string" where
  "group_part g =
     (if keep_set (g_keepHighest g) \<or> keep_set (g_keepLowest g) then
        let keptRolls =
              (if keep_set (g_keepHighest g)
               then take (the (g_keepHighest g)) (sort_desc (g_rolls g))
               else take (the (g_keepLowest g)) (sort_asc (g_rolls g)))
        in g_type g @ ''['' @ join '', '' (map show_int (g_rolls g)) @ arrow
             @ join '', '' (map show_int keptRolls) @ '']''
      else g_type g @ ''['' @ join '' + '' (map show_int (g_rolls g)) @ '']'')"

definition explosion_part :: "modifierEntry list \<Rightarrow> int list \<Rightarrow> string list" where
  "explosion_part modifierBreakdown explosionRolls =
     (if length explosionRolls > 0 then
        let fallback = show_nat (length explosionRolls) @ '' explosions'';
            explosionCount =
              (case find (\<lambda>m. m_type m = ''explosion'') modifierBreakdown of
                 Some m \<Rightarrow> if m_description m \<noteq> [] then m_description m else fallback
               | None \<Rightarrow> fallback)
        in [''EXP['' @ join '' + '' (map show_int explosionRolls) @ '']('' @ explosionCount
              @ '')'']
      else [])"

definition bonus_parts :: "bonusEntry list \<Rightarrow> string list" where
  "bonus_parts bonusBreakdown =
     map (\<lambda>b. show_int (b_value b) @ ''('' @ b_display b @ '')'')
       (filter (\<lambda>b. b_value b > 0) bonusBreakdown)"

fun modifier_parts :: "modifierEntry list \<Rightarrow> string \<Rightarrow> string" where
  "modifier_parts [] res = res"
| "modifier_parts (m # ms) res =
     (if truthy (Some (m_multiplier m)) \<and> m_multiplier m \<noteq> Fin 1 then
        modifier_parts ms (''('' @ res @ '') '' @ times_sign @ '' ''
          @ js_to_string (m_multiplier m) @ ''('' @ m_description m @ '')'')
      else if m_value m \<noteq> Fin 0 \<and> m_type m \<noteq> ''explosion'' then
        modifier_parts ms (res @ '' + '' @ js_to_string (m_value m) @ ''(''
          @ m_description m @ '')'')
      else modifier_parts ms res)"

definition generateBreakdownString :: "diceGroup list \<Rightarrow> bonusEntry list \<Rightarrow> modifierEntry list
    \<Rightarrow> int list \<Rightarrow> jsnum \<Rightarrow> string" where
  "generateBreakdownString diceGroups bonusBreakdown modifierBreakdown explosionRolls
      finalResult =
     (let parts = map group_part diceGroups
                  @ explosion_part modifierBreakdown explosionRolls
                  @ bonus_parts bonusBreakdown;
          baseCalc = join '' + '' parts
      in modifier_parts modifierBreakdown baseCalc)"

subsection \<open>calculateActionRoll\<close>

record details =
  diceGroups :: "diceGroup list"
  bonusBreakdown :: "bonusEntry list"
  modifierBreakdown :: "modifierEntry list"
  explosionRolls :: "int list"
  rawDiceTotal :: int
  baseTotal :: int
  finalResult :: jsnum
  breakdown :: string

record rollResult =
  result :: jsnum
  rawDiceResult :: int
  details :: details

text \<open>The calculator instance: the constructor sets no field, \<open>calculateActionRoll\<close>
  assigns \<open>this.rollHistory = []\<close>.\<close>

record calculator =
  rollHistory :: "string list option"

text \<open>\<open>calculateActionRoll\<close>, with the table \<open>RANK_BONUSES\<close> as a parameter. It returns the
  result record, the calculator instance and the rest of the die source, or the error
  that ends the call.\<close>

definition calculateActionRoll_tbl :: "(rank \<Rightarrow> int) \<Rightarrow> calculator \<Rightarrow> action \<Rightarrow> rank \<Rightarrow> rank
    \<Rightarrow> int \<Rightarrow> dieSource \<Rightarrow> error + (rollResult \<times> calculator \<times> dieSource)" where
  "calculateActionRoll_tbl tbl this act weaponRank masteryRank otherBonuses src =
     (let formula = calculableFormula act;
          this1 = this\<lparr>rollHistory := Some []\<rparr>;
          (total1, raw1, groups, src1) =
             dice_loop (dice formula) weaponRank masteryRank 0 0 [] src;
          (total2, bonus2) =
             bonus_loop tbl (bonuses formula) weaponRank masteryRank total1 [];
          (totalResult, bonusList) =
             (if otherBonuses > 0
              then (total2 + otherBonuses,
                    bonus2 @ [\<lparr>b_type = ''Other'', b_rank = None, b_value = otherBonuses,
                                b_display = ''Buff''\<rparr>])
              else (total2, bonus2))
      in case modifier_loop (case modifiers formula of Some ms \<Rightarrow> ms | None \<Rightarrow> [])
                (concat (map g_rolls groups)) weaponRank masteryRank otherBonuses
                (Fin (of_int totalResult)) [] [] raw1 src1 of
           Inl err \<Rightarrow> Inl err
         | Inr (final, explosions, modifierList, raw2, src2) \<Rightarrow>
             Inr (\<lparr>result = js_max (Fin 1) (js_floor final),
                   rawDiceResult = raw2,
                   details = \<lparr>diceGroups = groups,
                              bonusBreakdown = bonusList,
                              modifierBreakdown = modifierList,
                              explosionRolls = explosions,
                              rawDiceTotal = raw2,
                              baseTotal = totalResult,
                              finalResult = final,
                              breakdown = generateBreakdownString groups bonusList
                                modifierList explosions final\<rparr>\<rparr>,
                  this1, src2))"

definition calculateActionRoll :: "calculator \<Rightarrow> action \<Rightarrow> rank \<Rightarrow> rank \<Rightarrow> int \<Rightarrow> dieSource
    \<Rightarrow> error + (rollResult \<times> calculator \<times> dieSource)" where
  "calculateActionRoll = calculateActionRoll_tbl RANK_BONUSES"

section \<open>The catalog (actions.js)\<close>

text \<open>The entries of \<open>ACTIONS\<close>, each with its name and its \<open>calculableFormula\<close>.
  \<open>plain_dice\<close> is a dice group with a count and sides only.\<close>

definition plain_dice :: "int \<Rightarrow> int \<Rightarrow> diceConfig" where
  "plain_dice n sd = \<lparr>count = Num n, sides = sd, keepHighest = None, keepLowest = None,
     baseDiceByRank = None, diceByRank = None\<rparr>"

definition Recover :: action where
  "Recover = \<lparr>name = ''Recover'', calculableFormula =
     \<lparr>dice = [(plain_dice 2 20)\<lparr>keepHighest := Some 1\<rparr>], bonuses = [],
      modifiers = Some []\<rparr>\<rparr>"

definition Ultra_Counter :: action where
  "Ultra_Counter = \<lparr>name = ''Ultra Counter'', calculableFormula =
     \<lparr>dice = [plain_dice 1 100], bonuses = [''MR'', ''WR''],
      modifiers = Some
        [Conditional ''adjacent'' 30,
         SuccessBonus 30 None (Some [D \<mapsto> 30, C \<mapsto> 30, B \<mapsto> 40, A \<mapsto> 40, S \<mapsto> 50])
           None]\<rparr>\<rparr>"

definition Stable_Attack :: action where
  "Stable_Attack = \<lparr>name = ''Stable Attack'', calculableFormula =
     \<lparr>dice = [plain_dice 7 20, (plain_dice 0 20)\<lparr>count := Str ''MR_LEVEL''\<rparr>],
      bonuses = [''WR''],
      modifiers = Some
        [Explosion 17 (Some (2 / 10)) \<lparr>ds_count = 1, ds_sides = 20\<rparr>]\<rparr>\<rparr>"

definition Special_Critical_Attack :: action where
  "Special_Critical_Attack = \<lparr>name = ''Special Critical Attack'', calculableFormula =
     \<lparr>dice = [plain_dice 2 100], bonuses = [''MR'', ''WR''],
      modifiers = Some
        [Multiplier (12 / 10),
         ThresholdMultiplier 85
           (Some [E \<mapsto> 15 / 10, D \<mapsto> 15 / 10, C \<mapsto> 16 / 10, B \<mapsto> 17 / 10, A \<mapsto> 18 / 10,
                  S \<mapsto> 2]) None,
         ThresholdMultiplier 100 None (Some 3)]\<rparr>\<rparr>"

definition Sharp_Attack :: action where
  "Sharp_Attack = \<lparr>name = ''Sharp Attack'', calculableFormula =
     \<lparr>dice = [(plain_dice 2 100)\<lparr>keepHighest := Some 1\<rparr>], bonuses = [''MR'', ''WR''],
      modifiers = Some [BonusConversion 40 \<lparr>ds_count = 1, ds_sides = 100\<rparr>]\<rparr>\<rparr>"

definition Heal :: action where
  "Heal = \<lparr>name = ''Heal'', calculableFormula =
     \<lparr>dice = [plain_dice 2 20], bonuses = [''MR'', ''WR''],
      modifiers = Some
        [Explosion 17 (Some (2 / 10)) \<lparr>ds_count = 1, ds_sides = 20\<rparr>,
         AoeDivisor 3]\<rparr>\<rparr>"

definition Buff :: action where
  "Buff = \<lparr>name = ''Buff'', calculableFormula =
     \<lparr>dice = [plain_dice 1 100], bonuses = [''MR'', ''WR''],
      modifiers = Some [Divisor 3]\<rparr>\<rparr>"

definition Attack :: action where
  "Attack = \<lparr>name = ''Attack'', calculableFormula =
     \<lparr>dice = [plain_dice 1 100], bonuses = [''MR'', ''WR''], modifiers = Some []\<rparr>\<rparr>"

definition Protect :: action where
  "Protect = \<lparr>name = ''Protect'', calculableFormula =
     \<lparr>dice = [plain_dice 1 100], bonuses = [''MR'', ''WR''], modifiers = Some []\<rparr>\<rparr>"

definition Ultra_Protect :: action where
  "Ultra_Protect = \<lparr>name = ''Ultra Protect'', calculableFormula =
     \<lparr>dice = [plain_dice 1 100], bonuses = [''MR'', ''WR''], modifiers = Some []\<rparr>\<rparr>"

definition Counter :: action where
  "Counter = \<lparr>name = ''Counter'', calculableFormula =
     \<lparr>dice = [plain_dice 1 100], bonuses = [''MR'', ''WR''], modifiers = Some []\<rparr>\<rparr>"

definition Special_Burst_Attack :: action where
  "Special_Burst_Attack = \<lparr>name = ''Special Burst Attack'', calculableFormula =
     \<lparr>dice = [(plain_dice 0 20)\<lparr>count := Str ''BASE_BY_RANK'',
                 baseDiceByRank := Some [E \<mapsto> 12, D \<mapsto> 12, C \<mapsto> 12, B \<mapsto> 13, A \<mapsto> 13, S \<mapsto> 14]\<rparr>,
              (plain_dice 0 20)\<lparr>count := Str ''MR_LEVEL''\<rparr>],
      bonuses = [''WR''],
      modifiers = Some
        [Explosion 16 (Some (25 / 100)) \<lparr>ds_count = 1, ds_sides = 20\<rparr>]\<rparr>\<rparr>"

definition Sneak_Attack :: action where
  "Sneak_Attack = \<lparr>name = ''Sneak Attack'', calculableFormula =
     \<lparr>dice = [plain_dice 1 100], bonuses = [''MR'', ''WR''],
      modifiers = Some
        [SuccessBonus 30
           (Some [E \<mapsto> 20, D \<mapsto> 20, C \<mapsto> 25, B \<mapsto> 30, A \<mapsto> 35, S \<mapsto> 40]) None (Some 10)]\<rparr>\<rparr>"

definition Special_Reckless_Attack :: action where
  "Special_Reckless_Attack = \<lparr>name = ''Special Reckless Attack'', calculableFormula =
     \<lparr>dice = [plain_dice 1 200,
              (plain_dice 0 100)\<lparr>count := Str ''DICE_BY_RANK'',
                 diceByRank := Some [E \<mapsto> 1, D \<mapsto> 1, C \<mapsto> 1, B \<mapsto> 2, A \<mapsto> 2, S \<mapsto> 2]\<rparr>],
      bonuses = [''MR'', ''WR''],
      modifiers = Some [BonusConversion 40 \<lparr>ds_count = 1, ds_sides = 100\<rparr>]\<rparr>\<rparr>"

definition Power_Heal :: action where
  "Power_Heal = \<lparr>name = ''Power Heal'', calculableFormula =
     \<lparr>dice = [plain_dice 4 20], bonuses = [''MR'', ''WR''],
      modifiers = Some
        [Explosion 15 (Some (3 / 10)) \<lparr>ds_count = 1, ds_sides = 20\<rparr>,
         AoeDivisor 3]\<rparr>\<rparr>"

definition Power_Buff :: action where
  "Power_Buff = \<lparr>name = ''Power Buff'', calculableFormula =
     \<lparr>dice = [plain_dice 2 100], bonuses = [''MR'', ''WR''],
      modifiers = Some [Divisor 3]\<rparr>\<rparr>"

definition ACTIONS :: "action list" where
  "ACTIONS = [Attack, Recover, Protect, Ultra_Protect, Counter, Ultra_Counter, Stable_Attack,
     Special_Burst_Attack, Sneak_Attack, Special_Critical_Attack, Sharp_Attack,
     Special_Reckless_Attack, Heal, Power_Heal, Buff, Power_Buff]"

text \<open>A die source that makes the coming rolls of a die with \<open>sd\<close> sides show the given
  faces (each between \<open>1\<close> and \<open>sd\<close>), and \<open>1\<close> ever after.\<close>

definition faces_source :: "int \<Rightarrow> int list \<Rightarrow> dieSource" where
  "faces_source sd faces =
     (\<lambda>i. if i < length faces then of_int (faces ! i - 1) / of_int sd else 0)"

section \<open>Notions used in the statements\<close>

text \<open>An action with its list of modifiers, or its list of dice groups, replaced.\<close>

definition with_modifiers :: "action \<Rightarrow> modifier list \<Rightarrow> action" where
  "with_modifiers act ms =
     act\<lparr>calculableFormula := (calculableFormula act)\<lparr>modifiers := Some ms\<rparr>\<rparr>"

definition with_dice :: "action \<Rightarrow> diceConfig list \<Rightarrow> action" where
  "with_dice act ds = act\<lparr>calculableFormula := (calculableFormula act)\<lparr>dice := ds\<rparr>\<rparr>"

text \<open>A modifier without its \<open>chance\<close> field: two lists of modifiers differ only in
  \<open>chance\<close> fields when they are equal after this.\<close>

fun drop_chance :: "modifier \<Rightarrow> modifier" where
  "drop_chance (Explosion t ch ed) = Explosion t None ed"
| "drop_chance m = m"

text \<open>A calculator instance that no call has used yet.\<close>

definition fresh :: calculator where
  "fresh = \<lparr>rollHistory = None\<rparr>"

text \<open>The modifiers of an action (\<open>calculableFormula.modifiers || []\<close>).\<close>

definition modifiers_of :: "action \<Rightarrow> modifier list" where
  "modifiers_of act = (case modifiers (calculableFormula act) of Some ms \<Rightarrow> ms | None \<Rightarrow> [])"

text \<open>The extra rolls that the entries of type \<open>explosion\<close> of a modifier breakdown
  record.\<close>

definition explosion_faces :: "modifierEntry list \<Rightarrow> int list" where
  "explosion_faces mb =
     concat (map m_explosionRolls (filter (\<lambda>m. m_type m = ''explosion'') mb))"

text \<open>The number of dice (\<open>extraDice\<close>) that a \<open>bonus_conversion\<close> modifier rolls for a
  given \<open>otherBonuses\<close>; no other modifier depends on \<open>otherBonuses\<close> for its rolls.\<close>

fun conversion_draws :: "int \<Rightarrow> modifier \<Rightarrow> jsnum" where
  "conversion_draws ob (BonusConversion cr ctd) =
     js_mul (js_floor (js_div (Fin (of_int ob)) (Fin (of_int cr)))) (Fin (of_int (ds_count ctd)))"
| "conversion_draws ob m = Fin 0"

text \<open>A die source given by the values of the first calls of \<open>Math.random()\<close>, and \<open>0\<close>
  ever after.\<close>

definition random_source :: "rat list \<Rightarrow> dieSource" where
  "random_source rs = (\<lambda>i. if i < length rs then rs ! i else 0)"

text \<open>The factor of a \<open>threshold_multiplier\<close> modifier whose threshold is met:
  \<open>multiplierByRank ? multiplierByRank[masteryRank] || multiplierByRank.E : multiplier\<close>.\<close>

definition threshold_factor :: "(rank \<Rightarrow> rat option) option \<Rightarrow> rat option \<Rightarrow> rank \<Rightarrow> rat option" where
  "threshold_factor multiplierByRank multiplier masteryRank =
     (case multiplierByRank of
        Some table \<Rightarrow> by_rank table masteryRank
      | None \<Rightarrow> multiplier)"

text \<open>The modifiers on which \<open>applyModifier\<close> returns a value whatever the other
  arguments: every one but a \<open>success_bonus\<close> with neither table (a \<open>TypeError\<close> once its
  threshold is met) and a \<open>bonus_conversion\<close> with the rate \<open>0\<close> (a loop without end for a
  positive bonus).\<close>

fun returns_modifier :: "modifier \<Rightarrow> bool" where
  "returns_modifier (SuccessBonus t None None fb) = False"
| "returns_modifier (BonusConversion cr ctd) = (cr \<noteq> 0)"
| "returns_modifier m = True"

text \<open>The faces that the next \<open>n\<close> rolls of a die with \<open>sd\<close> sides show, and the die
  source after them.\<close>

definition die_faces :: "nat \<Rightarrow> int \<Rightarrow> dieSource \<Rightarrow> int list" where
  "die_faces n sd src = map (\<lambda>i. \<lfloor>src i * of_int sd\<rfloor> + 1) [0..<n]"

definition after_rolls :: "nat \<Rightarrow> dieSource \<Rightarrow> dieSource" where
  "after_rolls n src = (\<lambda>i. src (i + n))"

text \<open>
  The raw dice total of the dice phase in the words of the specification: for each
  group whose resolved count is positive, roll that many dice; with \<open>keepHighest\<close> or
  \<open>keepLowest\<close> sort them and retain that many extreme values; sum the kept dice.
  \<open>kept_dice\<close> is what a group keeps of its rolls, \<open>kept_dice_total\<close> the sum over the
  groups, each rolled where the one before left the die source.
\<close>

definition kept_dice :: "diceConfig \<Rightarrow> int list \<Rightarrow> int list" where
  "kept_dice cfg rolls =
     (if keep_set (keepHighest cfg) then take (the (keepHighest cfg)) (sort_desc rolls)
      else if keep_set (keepLowest cfg) then take (the (keepLowest cfg)) (sort_asc rolls)
      else rolls)"

fun kept_dice_total :: "diceConfig list \<Rightarrow> rank \<Rightarrow> rank \<Rightarrow> dieSource \<Rightarrow> int" where
  "kept_dice_total [] wr mr src = 0"
| "kept_dice_total (cfg # cfgs) wr mr src =
     (case resolve_count cfg wr mr of
        None \<Rightarrow> kept_dice_total cfgs wr mr src
      | Some c \<Rightarrow>
          if c > 0
          then sum_list (kept_dice cfg (die_faces (nat c) (sides cfg) src))
               + kept_dice_total cfgs wr mr (after_rolls (nat c) src)
          else kept_dice_total cfgs wr mr src)"

text \<open>
  The explosion cascade in the words of the specification: roll one extra die for each
  of the \<open>n\<close> dice that met the threshold; each new die at or above the threshold
  triggers one die of the next round; at most \<open>k\<close> rounds. The result is the list of
  all extra rolls. No chance enters it.
\<close>

fun cascade :: "nat \<Rightarrow> rat \<Rightarrow> int \<Rightarrow> nat \<Rightarrow> dieSource \<Rightarrow> int list" where
  "cascade 0 t sd n src = []"
| "cascade (Suc k) t sd n src =
     (if n = 0 then []
      else die_faces n sd src
           @ cascade k t sd (length (filter (\<lambda>roll. t \<le> of_int roll) (die_faces n sd src)))
               (after_rolls n src))"

text \<open>Two values of \<open>otherBonuses\<close> agree on an action's modifiers when every modifier
  that stands before an explosion modifier rolls the same number of converted dice for
  both: then both evaluations reach each explosion at the same place of the die source.\<close>

fun is_explosion :: "modifier \<Rightarrow> bool" where
  "is_explosion (Explosion t ch ed) = True"
| "is_explosion m = False"

fun draws_agree :: "int \<Rightarrow> int \<Rightarrow> modifier list \<Rightarrow> bool" where
  "draws_agree ob1 ob2 [] = True"
| "draws_agree ob1 ob2 (m # ms) =
     ((list_ex is_explosion ms \<longrightarrow> conversion_draws ob1 m = conversion_draws ob2 m)
      \<and> draws_agree ob1 ob2 ms)"

section \<open>Properties of the loops\<close>

lemma rollTimes_Suc:
  "rollTimes (Suc n) sd src =
     (fst (rollDie src sd) # fst (rollTimes n sd (snd (rollDie src sd))),
      snd (rollTimes n sd (snd (rollDie src sd))))"
  by (simp split: prod.splits)

lemma length_rollTimes: "length (fst (rollTimes n sd src)) = n"
  by (induction n arbitrary: src)
     (simp_all only: rollTimes.simps(1) rollTimes_Suc fst_conv list.size)

lemma count_explosions_le: "count_explosions t rolls \<le> length rolls"
  by (simp add: count_explosions_def)

lemma round_fields:
  "maxIterations (explosion_round t sd st) = maxIterations st - 1"
  "currentExplosions (explosion_round t sd st) \<le> currentExplosions st"
  "allExplosionRolls (explosion_round t sd st)
     = allExplosionRolls st @ fst (rollTimes (currentExplosions st) sd (es_src st))"
proof -
  obtain rs s1 where r: "rollTimes (currentExplosions st) sd (es_src st) = (rs, s1)"
    by (cases "rollTimes (currentExplosions st) sd (es_src st)")
  have "length rs = currentExplosions st"
    using length_rollTimes [of "currentExplosions st" sd "es_src st"] r by simp
  then have "count_explosions t rs \<le> currentExplosions st"
    using count_explosions_le [of t rs] by simp
  then show "currentExplosions (explosion_round t sd st) \<le> currentExplosions st"
    by (simp add: explosion_round_def r Let_def)
  show "maxIterations (explosion_round t sd st) = maxIterations st - 1"
    by (simp add: explosion_round_def r Let_def)
  show "allExplosionRolls (explosion_round t sd st)
     = allExplosionRolls st @ fst (rollTimes (currentExplosions st) sd (es_src st))"
    by (simp add: explosion_round_def r Let_def)
qed

text \<open>The cascade loop is a number of rounds, at most \<open>maxIterations\<close>, after which its
  condition is false.\<close>

lemma explosion_loop_rounds:
  "\<exists>n. n \<le> maxIterations st
     \<and> explosion_loop t sd st = (explosion_round t sd ^^ n) st
     \<and> \<not> explosion_cond ((explosion_round t sd ^^ n) st)"
proof (induction t sd st rule: explosion_loop.induct)
  case (1 t sd st)
  show ?case
  proof (cases "explosion_cond st")
    case True
    from "1.IH" [OF True] obtain n where
      n: "n \<le> maxIterations (explosion_round t sd st)"
         "explosion_loop t sd (explosion_round t sd st)
            = (explosion_round t sd ^^ n) (explosion_round t sd st)"
         "\<not> explosion_cond ((explosion_round t sd ^^ n) (explosion_round t sd st))"
      by blast
    have pos: "0 < maxIterations st"
      using True by (simp add: explosion_cond_def)
    have "Suc n \<le> maxIterations st"
      using n(1) pos by (simp add: round_fields(1))
    moreover have "explosion_loop t sd st = (explosion_round t sd ^^ Suc n) st"
      using True n(2) by (simp add: explosion_loop.simps [of t sd st] funpow_swap1)
    moreover have "\<not> explosion_cond ((explosion_round t sd ^^ Suc n) st)"
      using n(3) by (simp add: funpow_swap1)
    ultimately show ?thesis by blast
  next
    case False
    then have "explosion_loop t sd st = (explosion_round t sd ^^ 0) st"
      by (simp add: explosion_loop.simps [of t sd st])
    with False show ?thesis
      by (metis funpow_0 le0)
  qed
qed

text \<open>Each round rolls as many dice as there are pending explosions, and these never
  increase, so the loop rolls at most \<open>maxIterations\<close> times the first number.\<close>

lemma explosion_loop_length:
  "length (allExplosionRolls (explosion_loop t sd st))
     \<le> length (allExplosionRolls st) + maxIterations st * currentExplosions st"
proof (induction t sd st rule: explosion_loop.induct)
  case (1 t sd st)
  show ?case
  proof (cases "explosion_cond st")
    case True
    let ?st1 = "explosion_round t sd st"
    have pos: "0 < maxIterations st"
      using True by (simp add: explosion_cond_def)
    have "length (allExplosionRolls (explosion_loop t sd ?st1))
            \<le> length (allExplosionRolls ?st1) + maxIterations ?st1 * currentExplosions ?st1"
      by (rule "1.IH" [OF True])
    also have "length (allExplosionRolls ?st1)
                 = length (allExplosionRolls st) + currentExplosions st"
      by (simp add: round_fields(3) length_rollTimes)
    also have "maxIterations ?st1 * currentExplosions ?st1
                 \<le> (maxIterations st - 1) * currentExplosions st"
      by (simp add: round_fields(1) round_fields(2))
    also have "length (allExplosionRolls st) + currentExplosions st
                 + (maxIterations st - 1) * currentExplosions st
               = length (allExplosionRolls st) + maxIterations st * currentExplosions st"
      using pos by (cases "maxIterations st") simp_all
    finally show ?thesis
      using True by (simp add: explosion_loop.simps [of t sd st])
  next
    case False
    then show ?thesis
      by (simp add: explosion_loop.simps [of t sd st])
  qed
qed

lemma explosion_loop_extends:
  "\<exists>zs. allExplosionRolls (explosion_loop t sd st) = allExplosionRolls st @ zs"
proof (induction t sd st rule: explosion_loop.induct)
  case (1 t sd st)
  show ?case
  proof (cases "explosion_cond st")
    case True
    from "1.IH" [OF True] obtain zs where
      "allExplosionRolls (explosion_loop t sd (explosion_round t sd st))
         = allExplosionRolls (explosion_round t sd st) @ zs"
      by blast
    then show ?thesis
      using True by (simp add: explosion_loop.simps [of t sd st] round_fields(3))
  next
    case False
    then show ?thesis
      by (simp add: explosion_loop.simps [of t sd st])
  qed
qed

text \<open>The loop over a list of modifiers, run in two parts.\<close>

lemma modifier_loop_append:
  "modifier_loop (xs @ ys) al wr mr ob fr ex mb raw src =
     (case modifier_loop xs al wr mr ob fr ex mb raw src of
        Inl e \<Rightarrow> Inl e
      | Inr (fr1, ex1, mb1, raw1, src1) \<Rightarrow> modifier_loop ys al wr mr ob fr1 ex1 mb1 raw1 src1)"
proof (induction xs arbitrary: fr ex mb raw src)
  case Nil
  show ?case by simp
next
  case (Cons m ms)
  show ?case
    by (cases "applyModifier m fr al wr mr ob src") (auto simp: Cons.IH split: option.splits)
qed

lemma calc_with_modifiers:
  "calculateActionRoll_tbl tbl this (with_modifiers act ms) wr mr ob src =
     (case dice_loop (dice (calculableFormula act)) wr mr 0 0 [] src of
        (total1, raw1, groups, src1) \<Rightarrow>
          (case bonus_loop tbl (bonuses (calculableFormula act)) wr mr total1 [] of
             (total2, bonus2) \<Rightarrow>
               (case (if ob > 0
                      then (total2 + ob,
                            bonus2 @ [\<lparr>b_type = ''Other'', b_rank = None, b_value = ob,
                                        b_display = ''Buff''\<rparr>])
                      else (total2, bonus2)) of
                  (totalResult, bonusList) \<Rightarrow>
                    (case modifier_loop ms (concat (map g_rolls groups)) wr mr ob
                            (Fin (of_int totalResult)) [] [] raw1 src1 of
                       Inl err \<Rightarrow> Inl err
                     | Inr (final, explosions, modifierList, raw2, src2) \<Rightarrow>
                         Inr (\<lparr>result = js_max (Fin 1) (js_floor final),
                               rawDiceResult = raw2,
                               details = \<lparr>diceGroups = groups,
                                          bonusBreakdown = bonusList,
                                          modifierBreakdown = modifierList,
                                          explosionRolls = explosions,
                                          rawDiceTotal = raw2,
                                          baseTotal = totalResult,
                                          finalResult = final,
                                          breakdown = generateBreakdownString groups
                                            bonusList modifierList explosions final\<rparr>\<rparr>,
                              this\<lparr>rollHistory := Some []\<rparr>, src2)))))"
  by (simp add: calculateActionRoll_tbl_def with_modifiers_def Let_def)

section \<open>Properties of the lookups and of the arithmetic\<close>

lemma by_rank_eq:
  "by_rank table r = (if table r = None \<or> table r = Some 0 then table E else table r)"
  by (auto simp: by_rank_def split: option.splits)

lemma or_default_zero: "or_default (Some (Fin 0)) d = d"
  by (simp add: or_default_def)

lemma max_one_int:
  "(if (of_int n :: rat) \<le> 1 then Fin 1 else Fin (of_int n)) = Fin (of_int (max 1 n))"
  by (auto simp: max_def)

lemma result_of_finite_total:
  "js_max (Fin 1) (js_floor (Fin x)) = Fin (of_int (max 1 \<lfloor>x\<rfloor>))"
  by (simp only: js_floor.simps js_max.simps js_ge.simps max_one_int)

lemma floor_quotient: "\<lfloor>(of_int b :: rat) / of_int r\<rfloor> = b div r"
  by (rule floor_divide_of_int_eq)

lemma trunc_quotient:
  assumes "0 \<le> b" "r \<noteq> 0"
  shows "trunc (of_int b / of_int r) = (if 0 < r then b div r else - (b div (- r)))"
proof (cases "0 < r")
  case True
  then have "0 \<le> (of_int b :: rat) / of_int r"
    using assms(1) by simp
  then show ?thesis
    using True by (simp add: trunc_def floor_quotient)
next
  case False
  then have neg: "r < 0" using assms(2) by simp
  have q: "(of_int b :: rat) / of_int r = - (of_int b / of_int (- r))"
    by simp
  show ?thesis
  proof (cases "b = 0")
    case True
    then show ?thesis using neg by (simp add: trunc_def)
  next
    case False
    then have "0 < b" using assms(1) by simp
    then have "(of_int b :: rat) / of_int r < 0"
      using neg by (simp add: divide_pos_neg)
    then have "trunc (of_int b / of_int r) = \<lceil>(of_int b :: rat) / of_int r\<rceil>"
      by (simp add: trunc_def)
    also have "\<dots> = - \<lfloor>(of_int b :: rat) / of_int (- r)\<rfloor>"
      by (simp only: q ceiling_def minus_minus)
    also have "\<dots> = - (b div (- r))"
      by (simp only: floor_quotient)
    finally show ?thesis using neg by simp
  qed
qed

lemma js_rem_int:
  assumes "0 \<le> b" "r \<noteq> 0"
  shows "js_rem (Fin (of_int b)) (Fin (of_int r)) = Fin (of_int (b mod \<bar>r\<bar>))"
proof (cases "0 < r")
  case True
  have "b - r * (b div r) = b mod r"
    by (simp add: minus_mult_div_eq_mod)
  then have "(of_int b :: rat) - of_int r * of_int (b div r) = of_int (b mod r)"
    by (metis of_int_diff of_int_mult)
  then show ?thesis
    using True assms by (simp add: trunc_quotient)
next
  case False
  then have neg: "r < 0" using assms(2) by simp
  have "b - (- r) * (b div (- r)) = b mod (- r)"
    by (simp only: minus_mult_div_eq_mod)
  then have "b - r * (- (b div (- r))) = b mod (- r)"
    by simp
  then have "(of_int b :: rat) - of_int r * of_int (- (b div (- r))) = of_int (b mod (- r))"
    by (metis of_int_diff of_int_mult)
  then show ?thesis
    using neg assms by (simp add: trunc_quotient)
qed

lemma conversion_extra_dice:
  assumes "r \<noteq> 0"
  shows "js_mul (js_floor (js_div (Fin (of_int b)) (Fin (of_int r)))) (Fin (of_int n))
           = Fin (of_int (b div r * n))"
  using assms by (simp add: floor_quotient)

section \<open>Properties of the dice loop and of the modifier loop\<close>

lemma dice_loop_append:
  "dice_loop (xs @ ys) wr mr tot raw gs src =
     (case dice_loop xs wr mr tot raw gs src of
        (tot1, raw1, gs1, src1) \<Rightarrow> dice_loop ys wr mr tot1 raw1 gs1 src1)"
proof (induction xs arbitrary: tot raw gs src)
  case Nil
  show ?case by simp
next
  case (Cons cfg cfgs)
  show ?case
    by (simp add: Cons.IH Let_def split: option.splits prod.splits)
qed

lemma dice_loop_skip:
  assumes "\<forall>c. resolve_count cfg wr mr = Some c \<longrightarrow> c \<le> 0"
  shows "dice_loop (xs @ cfg # ys) wr mr tot raw gs src
           = dice_loop (xs @ ys) wr mr tot raw gs src"
proof -
  have "dice_loop (cfg # ys) wr mr tot1 raw1 gs1 src1 = dice_loop ys wr mr tot1 raw1 gs1 src1"
    for tot1 raw1 gs1 src1
    using assms by (cases "resolve_count cfg wr mr") auto
  then show ?thesis
    by (simp only: dice_loop_append [of xs])
qed

lemma calc_with_dice:
  "calculateActionRoll_tbl tbl this (with_dice act ds) wr mr ob src =
     (case dice_loop ds wr mr 0 0 [] src of
        (total1, raw1, groups, src1) \<Rightarrow>
          (case bonus_loop tbl (bonuses (calculableFormula act)) wr mr total1 [] of
             (total2, bonus2) \<Rightarrow>
               (case (if ob > 0
                      then (total2 + ob,
                            bonus2 @ [\<lparr>b_type = ''Other'', b_rank = None, b_value = ob,
                                        b_display = ''Buff''\<rparr>])
                      else (total2, bonus2)) of
                  (totalResult, bonusList) \<Rightarrow>
                    (case modifier_loop
                            (case modifiers (calculableFormula act) of Some ms \<Rightarrow> ms | None \<Rightarrow> [])
                            (concat (map g_rolls groups)) wr mr ob
                            (Fin (of_int totalResult)) [] [] raw1 src1 of
                       Inl err \<Rightarrow> Inl err
                     | Inr (final, explosions, modifierList, raw2, src2) \<Rightarrow>
                         Inr (\<lparr>result = js_max (Fin 1) (js_floor final),
                               rawDiceResult = raw2,
                               details = \<lparr>diceGroups = groups,
                                          bonusBreakdown = bonusList,
                                          modifierBreakdown = modifierList,
                                          explosionRolls = explosions,
                                          rawDiceTotal = raw2,
                                          baseTotal = totalResult,
                                          finalResult = final,
                                          breakdown = generateBreakdownString groups
                                            bonusList modifierList explosions final\<rparr>\<rparr>,
                              this\<lparr>rollHistory := Some []\<rparr>, src2)))))"
  by (simp add: calculateActionRoll_tbl_def with_dice_def Let_def)

lemma noop_step:
  assumes "m = AoeDivisor d \<or> m = Conditional c v"
  shows "modifier_loop (m # ys) al wr mr ob fr ex mb raw src
           = modifier_loop ys al wr mr ob fr ex mb raw src"
  using assms by (auto simp: is_recorded_def)

lemma noop_anywhere:
  assumes "m = AoeDivisor d \<or> m = Conditional c v"
  shows "modifier_loop (xs @ m # ys) al wr mr ob fr ex mb raw src
           = modifier_loop (xs @ ys) al wr mr ob fr ex mb raw src"
  by (simp only: modifier_loop_append [of xs] noop_step [OF assms])

lemma drop_chance_loop:
  "modifier_loop (map drop_chance ms) al wr mr ob fr ex mb raw src
     = modifier_loop ms al wr mr ob fr ex mb raw src"
proof (induction ms arbitrary: fr ex mb raw src)
  case Nil
  show ?case by simp
next
  case (Cons m ms)
  have a: "applyModifier (drop_chance m) fr al wr mr ob src = applyModifier m fr al wr mr ob src"
    by (cases m) simp_all
  have t: "modifier_type (drop_chance m) = modifier_type m"
    by (cases m) simp_all
  show ?case
    by (simp add: a t Cons.IH is_recorded_def modifier_entry_def
          split: sum.splits prod.splits option.splits)
qed

lemma explosion_faces_snoc:
  "explosion_faces (mb @ [e])
     = explosion_faces mb @ (if m_type e = ''explosion'' then m_explosionRolls e else [])"
  by (simp add: explosion_faces_def)

lemma modifier_loop_Cons_Inr:
  assumes "modifier_loop (m # ms) al wr mr ob fr ex mb raw src = Inr out"
  shows "\<exists>res s1 ex1 mb1.
           applyModifier m fr al wr mr ob src = Inr (res, s1)
           \<and> modifier_loop ms al wr mr ob (r_result res) ex1 mb1
                (if modifier_type m = ''explosion''
                 then raw + sum_list (case r_explosionRolls res of Some rs \<Rightarrow> rs | None \<Rightarrow> [])
                 else raw) s1 = Inr out
           \<and> explosion_faces mb1
               = explosion_faces mb
                 @ (if modifier_type m = ''explosion''
                    then (case r_explosionRolls res of Some rs \<Rightarrow> rs | None \<Rightarrow> [])
                    else [])"
proof (cases "applyModifier m fr al wr mr ob src")
  case (Inl e)
  with assms show ?thesis by simp
next
  case (Inr p)
  obtain res s1 where p: "p = (res, s1)" by (cases p)
  let ?rs = "case r_explosionRolls res of Some rs \<Rightarrow> rs | None \<Rightarrow> []"
  let ?raw = "if modifier_type m = ''explosion'' then raw + sum_list ?rs else raw"
  let ?faces = "explosion_faces mb @ (if modifier_type m = ''explosion'' then ?rs else [])"
  have "\<exists>ex1 mb1. modifier_loop ms al wr mr ob (r_result res) ex1 mb1 ?raw s1 = Inr out
          \<and> explosion_faces mb1 = ?faces"
  proof (cases "is_recorded m res")
    case True
    have f: "explosion_faces (mb @ [modifier_entry m res]) = ?faces"
      by (simp add: explosion_faces_snoc modifier_entry_def)
    show ?thesis
    proof (cases "r_explosionRolls res")
      case None
      then have "modifier_loop ms al wr mr ob (r_result res) ex (mb @ [modifier_entry m res])
                   ?raw s1 = Inr out"
        using assms Inr p True by simp
      with f show ?thesis by blast
    next
      case (Some rs)
      then have "modifier_loop ms al wr mr ob (r_result res) (ex @ rs)
                   (mb @ [modifier_entry m res]) ?raw s1 = Inr out"
        using assms Inr p True by auto
      with f show ?thesis by blast
    qed
  next
    case False
    then have t: "modifier_type m \<noteq> ''explosion''"
      by (auto simp: is_recorded_def)
    then have "modifier_loop ms al wr mr ob (r_result res) ex mb ?raw s1 = Inr out"
      using assms Inr p False by simp
    moreover have "explosion_faces mb = ?faces"
      using t by simp
    ultimately show ?thesis by blast
  qed
  then show ?thesis
    using Inr p by simp
qed

lemma modifier_loop_raw:
  "modifier_loop ms al wr mr ob fr ex mb raw src = Inr (fr1, ex1, mb1, raw1, src1) \<Longrightarrow>
     raw1 - sum_list (explosion_faces mb1) = raw - sum_list (explosion_faces mb)"
proof (induction ms arbitrary: fr ex mb raw src)
  case Nil
  then show ?case by simp
next
  case (Cons m ms)
  from modifier_loop_Cons_Inr [OF Cons.prems] obtain res s1 ex2 mb2 where
    "applyModifier m fr al wr mr ob src = Inr (res, s1)" and
    step: "modifier_loop ms al wr mr ob (r_result res) ex2 mb2
             (if modifier_type m = ''explosion''
              then raw + sum_list (case r_explosionRolls res of Some rs \<Rightarrow> rs | None \<Rightarrow> [])
              else raw) s1 = Inr (fr1, ex1, mb1, raw1, src1)"
    and faces: "explosion_faces mb2
               = explosion_faces mb
                 @ (if modifier_type m = ''explosion''
                    then (case r_explosionRolls res of Some rs \<Rightarrow> rs | None \<Rightarrow> [])
                    else [])"
    by blast
  from Cons.IH [OF step] show ?case
    by (simp add: faces split: if_splits)
qed

lemma applyModifier_same_draws:
  assumes "conversion_draws ob1 m = conversion_draws ob2 m"
    and "applyModifier m fr1 al wr mr ob1 src = Inr (res1, sA)"
    and "applyModifier m fr2 al wr mr ob2 src = Inr (res2, sB)"
  shows "sA = sB \<and> (modifier_type m = ''explosion''
            \<longrightarrow> r_explosionRolls res1 = r_explosionRolls res2)"
proof (cases m)
  case (BonusConversion cr ctd)
  with assms show ?thesis
    by (auto simp: Let_def simp del: js_div.simps js_floor.simps js_mul.simps js_rem.simps
          split: if_splits jsnum.splits prod.splits)
next
  case (SuccessBonus t sbr bbr fb)
  with assms show ?thesis
    by (auto split: if_splits option.splits sum.splits)
next
  case (Explosion t ch ed)
  with assms show ?thesis
    by (auto simp: Let_def split: if_splits)
qed (use assms in \<open>auto simp: Let_def split: if_splits\<close>)

text \<open>What \<open>rollDice\<close> keeps for \<open>keepHighest\<close>: the first dice of the rolls in
  descending order, each at least as large as every die that is dropped.\<close>

lemma kept_dice_are_the_largest:
  "fst (rollDice ((plain_dice n sd)\<lparr>keepHighest := Some (Suc k)\<rparr>) src)
     = take (Suc k) (sort_desc (fst (rollTimes (nat n) sd src)))
   \<and> (\<forall>x \<in> set (take j (sort_desc rolls)). \<forall>y \<in> set (drop j (sort_desc rolls)). y \<le> x)
   \<and> length (sort_desc rolls) = length rolls \<and> set (sort_desc rolls) = set rolls"
proof (intro conjI ballI)
  show "fst (rollDice ((plain_dice n sd)\<lparr>keepHighest := Some (Suc k)\<rparr>) src)
     = take (Suc k) (sort_desc (fst (rollTimes (nat n) sd src)))"
    by (cases "rollTimes (nat n) sd src") (auto simp: rollDice_def plain_dice_def sort_desc_def)
next
  fix x y
  assume x: "x \<in> set (take j (sort_desc rolls))" and y: "y \<in> set (drop j (sort_desc rolls))"
  have "sorted (map (\<lambda>r. - r) (sort_desc rolls))"
    by (simp add: sort_desc_def)
  then have "sorted (map (\<lambda>r. - r) (take j (sort_desc rolls))
                     @ map (\<lambda>r. - r) (drop j (sort_desc rolls)))"
    by (metis append_take_drop_id map_append)
  then have "\<forall>a \<in> set (map (\<lambda>r. - r) (take j (sort_desc rolls))).
             \<forall>b \<in> set (map (\<lambda>r. - r) (drop j (sort_desc rolls))). a \<le> b"
    by (simp add: sorted_append)
  with x y have "- x \<le> - y" by simp
  then show "y \<le> x" by simp
qed (simp_all add: sort_desc_def)

text \<open>Ultra Counter at mastery rank \<open>E\<close>: every roll that reaches the threshold
  makes the result \<open>NaN\<close>.\<close>

lemma ultra_counter_rank_E_any_success:
  assumes "30 \<le> \<lfloor>src 0 * 100\<rfloor> + 1 + RANK_BONUSES wr + ob" "0 \<le> ob"
  shows "map_sum id (\<lambda>(r, c, s). result r) (calculateActionRoll this Ultra_Counter wr E ob src)
           = Inr NaN"
  using assms
  by (simp add: calculateActionRoll_def calculateActionRoll_tbl_def Ultra_Counter_def
        plain_dice_def resolve_count_def rollDice_def rollDie_def by_rank_def to_number_def
        is_recorded_def modifier_entry_def Let_def)

text \<open>Evaluations that return a value.\<close>

lemma applyModifier_returns:
  assumes "returns_modifier m"
  shows "\<exists>res s1. applyModifier m fr al wr mr ob src = Inr (res, s1)"
proof (cases m)
  case (BonusConversion cr ctd)
  then have "cr \<noteq> 0" using assms by simp
  then show ?thesis
    using BonusConversion
    by (simp add: conversion_extra_dice Let_def
          del: js_div.simps js_rem.simps js_floor.simps js_mul.simps js_add.simps
          split: prod.splits)
next
  case (SuccessBonus t sbr bbr fb)
  then show ?thesis
    using assms by (cases sbr; cases bbr) simp_all
next
  case (Explosion t ch ed)
  then show ?thesis by (simp add: Let_def)
qed (simp_all add: Let_def)

lemma modifier_loop_returns:
  assumes "\<forall>m \<in> set ms. returns_modifier m"
  shows "\<exists>out. modifier_loop ms al wr mr ob fr ex mb raw src = Inr out"
  using assms
proof (induction ms arbitrary: fr ex mb raw src)
  case Nil
  show ?case by simp
next
  case (Cons m ms)
  then obtain res s1 where a: "applyModifier m fr al wr mr ob src = Inr (res, s1)"
    using applyModifier_returns [of m fr al wr mr ob src] by auto
  have rest: "\<forall>m \<in> set ms. returns_modifier m"
    using Cons.prems by simp
  show ?case
    using Cons.IH [OF rest] by (simp add: a split: option.splits)
qed

lemma evaluation_returns:
  assumes "\<forall>m \<in> set (modifiers_of act). returns_modifier m"
  shows "\<exists>out. calculateActionRoll_tbl tbl this act wr mr ob src = Inr out"
proof -
  obtain t1 raw0 gs sd where d: "dice_loop (dice (calculableFormula act)) wr mr 0 0 [] src
      = (t1, raw0, gs, sd)"
    by (cases "dice_loop (dice (calculableFormula act)) wr mr 0 0 [] src")
  obtain t2 b2 where b: "bonus_loop tbl (bonuses (calculableFormula act)) wr mr t1 [] = (t2, b2)"
    by (cases "bonus_loop tbl (bonuses (calculableFormula act)) wr mr t1 []")
  let ?tot = "if ob > 0 then t2 + ob else t2"
  obtain out where "modifier_loop (modifiers_of act) (concat (map g_rolls gs)) wr mr ob
      (Fin (of_int ?tot)) [] [] raw0 sd = Inr out"
    using modifier_loop_returns [OF assms] by blast
  then show ?thesis
    by (cases out)
       (simp add: calculateActionRoll_tbl_def d b Let_def modifiers_of_def split: if_splits)
qed

section \<open>The dice phase and the explosion cascade against their specifications\<close>

lemma rollTimes_faces: "rollTimes n sd src = (die_faces n sd src, after_rolls n src)"
proof (induction n arbitrary: src)
  case 0
  show ?case by (simp add: die_faces_def after_rolls_def)
next
  case (Suc n)
  have shift: "map (\<lambda>i. \<lfloor>src i * of_int sd\<rfloor> + 1) [0..<Suc n]
                 = (\<lfloor>src 0 * of_int sd\<rfloor> + 1) # map (\<lambda>i. \<lfloor>src (Suc i) * of_int sd\<rfloor> + 1) [0..<n]"
    by (simp only: upt_conv_Cons [of 0 "Suc n"] map_Suc_upt [symmetric] list.map map_map o_def)
  show ?case
    by (simp add: rollDie_def rest_def Suc.IH)
       (simp add: die_faces_def after_rolls_def shift del: upt_Suc)
qed

lemma rollDice_kept:
  assumes "0 < c"
  shows "rollDice (cfg\<lparr>count := Num c\<rparr>) src
           = (kept_dice cfg (die_faces (nat c) (sides cfg) src), after_rolls (nat c) src)"
  using assms by (simp add: rollDice_def rollTimes_faces kept_dice_def)

lemma dice_loop_kept_total:
  "dice_loop cfgs wr mr tot raw gs src = (tot1, raw1, gs1, src1) \<Longrightarrow>
     raw1 = raw + kept_dice_total cfgs wr mr src
     \<and> raw1 - sum_list (map g_sum gs1) = raw - sum_list (map g_sum gs)"
proof (induction cfgs arbitrary: tot raw gs src)
  case Nil
  then show ?case by simp
next
  case (Cons cfg cfgs)
  show ?case
  proof (cases "\<exists>c. resolve_count cfg wr mr = Some c \<and> 0 < c")
    case True
    then obtain c where c: "resolve_count cfg wr mr = Some c" "0 < c" by blast
    let ?kept = "kept_dice cfg (die_faces (nat c) (sides cfg) src)"
    let ?g = "\<lparr>g_type = show_int c @ ''d'' @ show_int (sides cfg), g_rolls = ?kept,
                g_sum = sum_list ?kept, g_keepHighest = keepHighest cfg,
                g_keepLowest = keepLowest cfg\<rparr>"
    have "dice_loop cfgs wr mr (tot + sum_list ?kept) (raw + sum_list ?kept) (gs @ [?g])
            (after_rolls (nat c) src) = (tot1, raw1, gs1, src1)"
      using Cons.prems c by (simp add: rollDice_kept Let_def)
    from Cons.IH [OF this] show ?thesis
      using c by simp
  next
    case False
    then have "dice_loop cfgs wr mr tot raw gs src = (tot1, raw1, gs1, src1)"
      using Cons.prems by (cases "resolve_count cfg wr mr") (auto split: if_splits)
    from Cons.IH [OF this] show ?thesis
      using False by (cases "resolve_count cfg wr mr") auto
  qed
qed

lemma js_add_zero: "js_add x (Fin 0) = x"
  by (cases x) simp_all

lemma cascade_none: "cascade k t sd 0 src = []"
  by (cases k) simp_all

lemma explosion_loop_cascade:
  "allExplosionRolls (explosion_loop t sd st)
     = allExplosionRolls st @ cascade (maxIterations st) t sd (currentExplosions st) (es_src st)
   \<and> explosionTotal (explosion_loop t sd st)
     = explosionTotal st
       + sum_list (cascade (maxIterations st) t sd (currentExplosions st) (es_src st))"
proof (induction t sd st rule: explosion_loop.induct)
  case (1 t sd st)
  show ?case
  proof (cases "explosion_cond st")
    case True
    then obtain k where k: "maxIterations st = Suc k" and n: "currentExplosions st \<noteq> 0"
      by (cases "maxIterations st") (auto simp: explosion_cond_def)
    let ?st1 = "explosion_round t sd st"
    have r: "currentExplosions ?st1
               = length (filter (\<lambda>roll. t \<le> of_int roll)
                   (die_faces (currentExplosions st) sd (es_src st)))"
            "maxIterations ?st1 = k"
            "allExplosionRolls ?st1
               = allExplosionRolls st @ die_faces (currentExplosions st) sd (es_src st)"
            "explosionTotal ?st1
               = explosionTotal st + sum_list (die_faces (currentExplosions st) sd (es_src st))"
            "es_src ?st1 = after_rolls (currentExplosions st) (es_src st)"
      by (simp_all add: explosion_round_def rollTimes_faces Let_def count_explosions_def k)
    have l: "explosion_loop t sd st = explosion_loop t sd ?st1"
      using True by (simp add: explosion_loop.simps [of t sd st])
    show ?thesis
      using "1.IH" [OF True] n by (simp add: l r k)
  next
    case False
    then have c: "cascade (maxIterations st) t sd (currentExplosions st) (es_src st) = []"
      by (cases "maxIterations st") (auto simp: explosion_cond_def)
    show ?thesis
      using False by (simp add: explosion_loop.simps [of t sd st] c)
  qed
qed

lemma explosion_is_cascade:
  "\<exists>res src1.
     applyModifier (Explosion t ch ed) cur al wr mr ob src = Inr (res, src1)
     \<and> (case r_explosionRolls res of Some rs \<Rightarrow> rs | None \<Rightarrow> [])
         = cascade 10 t (ds_sides ed) (length (filter (\<lambda>roll. t \<le> of_int roll) al)) src
     \<and> r_result res
         = js_add cur (Fin (of_int (sum_list
             (cascade 10 t (ds_sides ed) (length (filter (\<lambda>roll. t \<le> of_int roll) al)) src))))"
proof (cases "count_explosions t al = 0")
  case True
  then show ?thesis
    by (simp add: count_explosions_def js_add_zero cascade_none)
next
  case False
  let ?st = "\<lparr>currentExplosions = count_explosions t al, maxIterations = 10,
     allExplosionRolls = [], explosionTotal = 0, totalTriggers = count_explosions t al,
     es_src = src\<rparr>"
  from explosion_loop_cascade [of t "ds_sides ed" ?st]
  have "allExplosionRolls (explosion_loop t (ds_sides ed) ?st)
          = cascade 10 t (ds_sides ed) (count_explosions t al) src"
       "explosionTotal (explosion_loop t (ds_sides ed) ?st)
          = sum_list (cascade 10 t (ds_sides ed) (count_explosions t al) src)"
    by simp_all
  then show ?thesis
    using False by (simp add: Let_def count_explosions_def del: cascade.simps)
qed

section \<open>Independence of the raw dice total\<close>

lemmas catalog_defs = Attack_def Recover_def Protect_def Ultra_Protect_def Counter_def
  Ultra_Counter_def Stable_Attack_def Special_Burst_Attack_def Sneak_Attack_def
  Special_Critical_Attack_def Sharp_Attack_def Special_Reckless_Attack_def Heal_def
  Power_Heal_def Buff_def Power_Buff_def

lemma catalog_modifiers:
  assumes "act \<in> set ACTIONS"
  shows "draws_agree ob1 ob2 (modifiers_of act)"
    and "\<forall>m \<in> set (modifiers_of act). returns_modifier m"
  using assms by (auto simp: ACTIONS_def catalog_defs modifiers_of_def)

lemma other_type_has_no_rolls:
  assumes "\<not> is_explosion m" "modifier_type m = ''explosion''"
    and "applyModifier m fr al wr mr ob src = Inr (res, s1)"
  shows "r_explosionRolls res = None"
  using assms by (cases m) auto

lemma explosion_rolls_same:
  assumes "modifier_type m = ''explosion''"
    and "applyModifier m fr1 al wr mr ob1 src = Inr (res1, sA)"
    and "applyModifier m fr2 al wr mr ob2 src = Inr (res2, sB)"
  shows "r_explosionRolls res1 = r_explosionRolls res2"
proof (cases m)
  case (Explosion t ch ed)
  with assms show ?thesis
    by (auto simp: Let_def split: if_splits)
next
  case (OtherModifier ty)
  with assms show ?thesis by auto
qed (use assms in simp_all)

lemma no_explosion_raw:
  assumes "\<not> list_ex is_explosion ms"
    and "modifier_loop ms al wr mr ob fr ex mb raw src = Inr (a, b, d, raw1, s1)"
  shows "raw1 = raw"
  using assms
proof (induction ms arbitrary: fr ex mb raw src)
  case Nil
  then show ?case by simp
next
  case (Cons m ms)
  from modifier_loop_Cons_Inr [OF Cons.prems(2)] obtain res s2 ex2 mb2 where
    a: "applyModifier m fr al wr mr ob src = Inr (res, s2)"
    and l: "modifier_loop ms al wr mr ob (r_result res) ex2 mb2
          (if modifier_type m = ''explosion''
           then raw + sum_list (case r_explosionRolls res of Some rs \<Rightarrow> rs | None \<Rightarrow> [])
           else raw) s2 = Inr (a, b, d, raw1, s1)"
    by blast
  have m: "\<not> is_explosion m" and ms: "\<not> list_ex is_explosion ms"
    using Cons.prems(1) by simp_all
  have "(if modifier_type m = ''explosion''
           then raw + sum_list (case r_explosionRolls res of Some rs \<Rightarrow> rs | None \<Rightarrow> [])
           else raw) = raw"
    using other_type_has_no_rolls [OF m _ a] by auto
  with l have "modifier_loop ms al wr mr ob (r_result res) ex2 mb2 raw s2
                 = Inr (a, b, d, raw1, s1)"
    by simp
  from Cons.IH [OF ms this] show ?case .
qed

lemma modifier_loop_raw_agree:
  assumes "draws_agree ob1 ob2 ms"
    and "modifier_loop ms al wr mr ob1 fr1 ex1 mb1 raw src = Inr (a1, b1, d1, raw1, s1)"
    and "modifier_loop ms al wr mr ob2 fr2 ex2 mb2 raw src = Inr (a2, b2, d2, raw2, s2)"
  shows "raw1 = raw2"
  using assms
proof (induction ms arbitrary: fr1 fr2 ex1 ex2 mb1 mb2 raw src)
  case Nil
  then show ?case by simp
next
  case (Cons m ms)
  let ?stepA = "\<lambda>res. if modifier_type m = ''explosion''
           then raw + sum_list (case r_explosionRolls res of Some rs \<Rightarrow> rs | None \<Rightarrow> [])
           else raw"
  from modifier_loop_Cons_Inr [OF Cons.prems(2)] obtain resA sA exA mbA where
    A: "applyModifier m fr1 al wr mr ob1 src = Inr (resA, sA)"
       "modifier_loop ms al wr mr ob1 (r_result resA) exA mbA (?stepA resA) sA
          = Inr (a1, b1, d1, raw1, s1)"
    by blast
  from modifier_loop_Cons_Inr [OF Cons.prems(3)] obtain resB sB exB mbB where
    B: "applyModifier m fr2 al wr mr ob2 src = Inr (resB, sB)"
       "modifier_loop ms al wr mr ob2 (r_result resB) exB mbB (?stepA resB) sB
          = Inr (a2, b2, d2, raw2, s2)"
    by blast
  have step: "?stepA resB = ?stepA resA"
    using explosion_rolls_same [OF _ A(1) B(1)] by auto
  have rest: "draws_agree ob1 ob2 ms"
    using Cons.prems(1) by simp
  show ?case
  proof (cases "list_ex is_explosion ms")
    case True
    then have "conversion_draws ob1 m = conversion_draws ob2 m"
      using Cons.prems(1) by simp
    from applyModifier_same_draws [OF this A(1) B(1)] have "sA = sB" by blast
    with B(2) step have "modifier_loop ms al wr mr ob2 (r_result resB) exB mbB (?stepA resA) sA
          = Inr (a2, b2, d2, raw2, s2)"
      by simp
    from Cons.IH [OF rest A(2) this] show ?thesis .
  next
    case False
    have "raw1 = ?stepA resA"
      by (rule no_explosion_raw [OF False A(2)])
    moreover have "raw2 = ?stepA resB"
      by (rule no_explosion_raw [OF False B(2)])
    ultimately show ?thesis
      using step by simp
  qed
qed

section \<open>Claims\<close>

text \<open>
  Claim C1. \<open>calculateActionRoll\<close> returns \<open>result = Math.max(1, Math.floor(finalResult))\<close>,
  which the claim takes to be an integer that is at least \<open>1\<close> for every action and valid
  pair of ranks. The expression is \<open>NaN\<close> when the running total is \<open>NaN\<close>, and the
  catalog action Ultra Counter makes it so at mastery rank \<open>E\<close>: its \<open>bonusByRank\<close> table has
  no \<open>E\<close> entry, so a roll that reaches the threshold \<open>30\<close> adds \<open>undefined\<close> to the total.
  With a die that shows \<open>51\<close> the returned \<open>result\<close> is \<open>NaN\<close>.
\<close>

theorem ultra_counter_rank_E_result_is_NaN:
  "map_sum id (\<lambda>(r, c, s). (result r, finalResult (details r)))
     (calculateActionRoll fresh Ultra_Counter E E 0 (faces_source 100 [51]))
   = Inr (NaN, NaN)"
  by code_simp

text \<open>
  Claim C2, as stated, fails. The claim: \<open>rawDiceResult\<close> is the sum of every die face
  rolled during the evaluation, and does not depend on \<open>otherBonuses\<close>. In the code a group
  with \<open>keepHighest\<close> adds its kept dice only: Recover rolls \<open>5\<close> and \<open>18\<close> and reports
  \<open>18\<close>. And with a \<open>bonus_conversion\<close> modifier before an \<open>explosion\<close> modifier the
  converted dice (which are not counted either) are taken from the die source first, so
  on one and the same die source the explosion rolls, and \<open>rawDiceResult\<close> with them,
  change with \<open>otherBonuses\<close>: \<open>21\<close> for \<open>0\<close>, \<open>31\<close> for \<open>40\<close>.
\<close>

theorem raw_dice_total_misses_rolled_dice:
  "fst (rollTimes 2 20 (faces_source 20 [5, 18])) = [5, 18]
   \<and> fst (rollDice ((plain_dice 2 20)\<lparr>keepHighest := Some 1\<rparr>) (faces_source 20 [5, 18])) = [18]
   \<and> map_sum id (\<lambda>(r, c, s). rawDiceResult r)
       (calculateActionRoll fresh Recover E E 0 (faces_source 20 [5, 18])) = Inr 18
   \<and> (18::int) \<noteq> sum_list [5, 18]
   \<and> map_sum id (\<lambda>(r, c, s). rawDiceResult r)
       (calculateActionRoll fresh
          (with_modifiers (with_dice Heal [plain_dice 1 20])
             [BonusConversion 40 \<lparr>ds_count = 1, ds_sides = 100\<rparr>,
              Explosion 17 None \<lparr>ds_count = 1, ds_sides = 20\<rparr>])
          E E 0 (random_source [19 / 20, 0, 1 / 2])) = Inr 21
   \<and> map_sum id (\<lambda>(r, c, s). rawDiceResult r)
       (calculateActionRoll fresh
          (with_modifiers (with_dice Heal [plain_dice 1 20])
             [BonusConversion 40 \<lparr>ds_count = 1, ds_sides = 100\<rparr>,
              Explosion 17 None \<lparr>ds_count = 1, ds_sides = 20\<rparr>])
          E E 40 (random_source [19 / 20, 0, 1 / 2])) = Inr 31"
  by code_simp

text \<open>
  Claim C2, amended. In every evaluation that returns, \<open>rawDiceResult\<close> (which is also
  \<open>details.rawDiceTotal\<close>) is the sum, over the dice groups that are not skipped, of the
  dice that the group keeps (all its dice when it has neither \<open>keepHighest\<close> nor
  \<open>keepLowest\<close>), which is the sum of the recorded group sums, plus the extra rolls of
  the explosion modifiers; no bonus, no rank value and no converted die is part of it.
  On a given die source it is the same for any two tables of rank bonuses and any two
  values of \<open>otherBonuses\<close>, unless a \<open>bonus_conversion\<close> modifier that rolls a different
  number of dice for the two values stands before an explosion modifier in the list of
  the action. An evaluation returns whenever no modifier is a \<open>success_bonus\<close> without
  a table or a \<open>bonus_conversion\<close> with the rate \<open>0\<close>. Every action of the catalog
  returns and has no conversion before an explosion, so for the catalog the
  independence holds for all values of \<open>otherBonuses\<close>.
\<close>

theorem raw_dice_total_is_kept_and_explosion_rolls:
  "(calculateActionRoll_tbl tbl1 this1 act wr mr ob1 src = Inr (r1, c1, s1) \<longrightarrow>
      rawDiceResult r1
        = kept_dice_total (dice (calculableFormula act)) wr mr src
          + sum_list (explosion_faces (modifierBreakdown (details r1)))
      \<and> rawDiceResult r1
        = sum_list (map g_sum (diceGroups (details r1)))
          + sum_list (explosion_faces (modifierBreakdown (details r1)))
      \<and> rawDiceTotal (details r1) = rawDiceResult r1
      \<and> (calculateActionRoll_tbl tbl2 this2 act wr mr ob2 src = Inr (r2, c2, s2) \<longrightarrow>
           draws_agree ob1 ob2 (modifiers_of act) \<longrightarrow>
           rawDiceResult r2 = rawDiceResult r1))
   \<and> ((\<forall>m \<in> set (modifiers_of act). returns_modifier m) \<longrightarrow>
        (\<exists>out. calculateActionRoll_tbl tbl1 this1 act wr mr ob1 src = Inr out))
   \<and> (act \<in> set ACTIONS \<longrightarrow>
        draws_agree ob1 ob2 (modifiers_of act)
        \<and> (\<exists>out. calculateActionRoll_tbl tbl1 this1 act wr mr ob1 src = Inr out))"
proof (intro conjI impI)
  assume "\<forall>m \<in> set (modifiers_of act). returns_modifier m"
  then show "\<exists>out. calculateActionRoll_tbl tbl1 this1 act wr mr ob1 src = Inr out"
    by (rule evaluation_returns)
next
  assume "act \<in> set ACTIONS"
  then show "draws_agree ob1 ob2 (modifiers_of act)"
    by (rule catalog_modifiers(1))
next
  assume "act \<in> set ACTIONS"
  then have "\<forall>m \<in> set (modifiers_of act). returns_modifier m"
    by (rule catalog_modifiers(2))
  then show "\<exists>out. calculateActionRoll_tbl tbl1 this1 act wr mr ob1 src = Inr out"
    by (rule evaluation_returns)
next
  assume e1: "calculateActionRoll_tbl tbl1 this1 act wr mr ob1 src = Inr (r1, c1, s1)"
  obtain t1 raw0 gs sd where d: "dice_loop (dice (calculableFormula act)) wr mr 0 0 [] src
      = (t1, raw0, gs, sd)"
    by (cases "dice_loop (dice (calculableFormula act)) wr mr 0 0 [] src")
  have raw0: "raw0 = kept_dice_total (dice (calculableFormula act)) wr mr src"
             "raw0 = sum_list (map g_sum gs)"
    using dice_loop_kept_total [OF d] by simp_all
  obtain tA bA where bA: "bonus_loop tbl1 (bonuses (calculableFormula act)) wr mr t1 [] = (tA, bA)"
    by (cases "bonus_loop tbl1 (bonuses (calculableFormula act)) wr mr t1 []")
  let ?totA = "if ob1 > 0 then tA + ob1 else tA"
  obtain fA eA mA rawA sA where
    lA: "modifier_loop (modifiers_of act) (concat (map g_rolls gs)) wr mr ob1
           (Fin (of_int ?totA)) [] [] raw0 sd = Inr (fA, eA, mA, rawA, sA)"
    and rA: "rawDiceResult r1 = rawA" "rawDiceTotal (details r1) = rawA"
            "diceGroups (details r1) = gs" "modifierBreakdown (details r1) = mA"
    using e1
    by (auto simp: calculateActionRoll_tbl_def d bA Let_def modifiers_of_def
          split: sum.splits if_splits)
  have "rawA - sum_list (explosion_faces mA) = raw0 - sum_list (explosion_faces [])"
    by (rule modifier_loop_raw [OF lA])
  then have s: "rawA = raw0 + sum_list (explosion_faces mA)"
    by (simp add: explosion_faces_def)
  show "rawDiceResult r1
        = kept_dice_total (dice (calculableFormula act)) wr mr src
          + sum_list (explosion_faces (modifierBreakdown (details r1)))"
    using s rA raw0(1) by simp
  show "rawDiceResult r1
        = sum_list (map g_sum (diceGroups (details r1)))
          + sum_list (explosion_faces (modifierBreakdown (details r1)))"
    using s rA raw0(2) by simp
  show "rawDiceTotal (details r1) = rawDiceResult r1"
    using rA by simp
  assume e2: "calculateActionRoll_tbl tbl2 this2 act wr mr ob2 src = Inr (r2, c2, s2)"
    and agree: "draws_agree ob1 ob2 (modifiers_of act)"
  obtain tB bB where bB: "bonus_loop tbl2 (bonuses (calculableFormula act)) wr mr t1 [] = (tB, bB)"
    by (cases "bonus_loop tbl2 (bonuses (calculableFormula act)) wr mr t1 []")
  let ?totB = "if ob2 > 0 then tB + ob2 else tB"
  obtain fB eB mB rawB sB where
    lB: "modifier_loop (modifiers_of act) (concat (map g_rolls gs)) wr mr ob2
           (Fin (of_int ?totB)) [] [] raw0 sd = Inr (fB, eB, mB, rawB, sB)"
    and rB: "rawDiceResult r2 = rawB"
    using e2
    by (auto simp: calculateActionRoll_tbl_def d bB Let_def modifiers_of_def
          split: sum.splits if_splits)
  have "rawA = rawB"
    by (rule modifier_loop_raw_agree [OF agree lA lB])
  with rA rB show "rawDiceResult r2 = rawDiceResult r1" by simp
qed

lemma sharp_attack_values:
  "\<not> isl (calculateActionRoll_tbl RANK_BONUSES fresh Sharp_Attack S A 85
            (faces_source 100 [40, 50, 7, 9]))
   \<and> \<not> isl (calculateActionRoll_tbl (\<lambda>r. 0) fresh Sharp_Attack S A 0
            (faces_source 100 [40, 50, 7, 9]))
   \<and> rawDiceResult (fst (projr (calculateActionRoll_tbl RANK_BONUSES fresh Sharp_Attack S A 85
            (faces_source 100 [40, 50, 7, 9])))) = 50
   \<and> kept_dice_total (dice (calculableFormula Sharp_Attack)) S A
        (faces_source 100 [40, 50, 7, 9]) = 50
   \<and> conversion_draws 85 (BonusConversion 40 \<lparr>ds_count = 1, ds_sides = 100\<rparr>) = Fin 2
   \<and> conversion_draws 0 (BonusConversion 40 \<lparr>ds_count = 1, ds_sides = 100\<rparr>) = Fin 0
   \<and> draws_agree 85 0 (modifiers_of Sharp_Attack)"
  by code_simp

lemma heal_values:
  "\<not> isl (calculateActionRoll_tbl RANK_BONUSES fresh Heal S A 7
            (faces_source 20 [20, 19, 5, 17, 2]))
   \<and> \<not> isl (calculateActionRoll_tbl (\<lambda>r. 0) fresh Heal S A 0
            (faces_source 20 [20, 19, 5, 17, 2]))
   \<and> rawDiceResult (fst (projr (calculateActionRoll_tbl RANK_BONUSES fresh Heal S A 7
            (faces_source 20 [20, 19, 5, 17, 2])))) = 63
   \<and> kept_dice_total (dice (calculableFormula Heal)) S A
        (faces_source 20 [20, 19, 5, 17, 2]) = 39
   \<and> explosion_faces (modifierBreakdown (details (fst (projr
        (calculateActionRoll_tbl RANK_BONUSES fresh Heal S A 7
            (faces_source 20 [20, 19, 5, 17, 2])))))) = [5, 17, 2]
   \<and> draws_agree 7 0 (modifiers_of Heal)"
  by code_simp

theorem raw_dice_total_is_kept_and_explosion_rolls_witness:
  "rawDiceResult (fst (projr (calculateActionRoll_tbl RANK_BONUSES fresh Sharp_Attack S A 85
            (faces_source 100 [40, 50, 7, 9])))) = 50
   \<and> rawDiceResult (fst (projr (calculateActionRoll_tbl (\<lambda>r. 0) fresh Sharp_Attack S A 0
            (faces_source 100 [40, 50, 7, 9])))) = 50
   \<and> kept_dice_total (dice (calculableFormula Sharp_Attack)) S A
        (faces_source 100 [40, 50, 7, 9]) = 50
   \<and> conversion_draws 85 (BonusConversion 40 \<lparr>ds_count = 1, ds_sides = 100\<rparr>) = Fin 2
   \<and> conversion_draws 0 (BonusConversion 40 \<lparr>ds_count = 1, ds_sides = 100\<rparr>) = Fin 0
   \<and> rawDiceResult (fst (projr (calculateActionRoll_tbl RANK_BONUSES fresh Heal S A 7
            (faces_source 20 [20, 19, 5, 17, 2])))) = 63
   \<and> rawDiceResult (fst (projr (calculateActionRoll_tbl (\<lambda>r. 0) fresh Heal S A 0
            (faces_source 20 [20, 19, 5, 17, 2])))) = 63
   \<and> kept_dice_total (dice (calculableFormula Heal)) S A
        (faces_source 20 [20, 19, 5, 17, 2]) = 39
   \<and> explosion_faces (modifierBreakdown (details (fst (projr
        (calculateActionRoll_tbl RANK_BONUSES fresh Heal S A 7
            (faces_source 20 [20, 19, 5, 17, 2])))))) = [5, 17, 2]"
proof -
  let ?x = "calculateActionRoll_tbl RANK_BONUSES fresh Sharp_Attack S A 85
              (faces_source 100 [40, 50, 7, 9])"
  let ?y = "calculateActionRoll_tbl (\<lambda>r. 0) fresh Sharp_Attack S A 0
              (faces_source 100 [40, 50, 7, 9])"
  let ?u = "calculateActionRoll_tbl RANK_BONUSES fresh Heal S A 7
              (faces_source 20 [20, 19, 5, 17, 2])"
  let ?v = "calculateActionRoll_tbl (\<lambda>r. 0) fresh Heal S A 0
              (faces_source 20 [20, 19, 5, 17, 2])"
  have "\<not> isl ?x"
    using sharp_attack_values by blast
  then have cx: "Inr (projr ?x) = ?x"
    by (rule sum.collapse(2))
  have "\<not> isl ?y"
    using sharp_attack_values by blast
  then have cy: "Inr (projr ?y) = ?y"
    by (rule sum.collapse(2))
  from cx cy have x: "?x = Inr (fst (projr ?x), fst (snd (projr ?x)), snd (snd (projr ?x)))"
    and y: "?y = Inr (fst (projr ?y), fst (snd (projr ?y)), snd (snd (projr ?y)))"
    by simp_all
  have "\<not> isl ?u"
    using heal_values by blast
  then have cu: "Inr (projr ?u) = ?u"
    by (rule sum.collapse(2))
  have "\<not> isl ?v"
    using heal_values by blast
  then have cv: "Inr (projr ?v) = ?v"
    by (rule sum.collapse(2))
  from cu cv have u: "?u = Inr (fst (projr ?u), fst (snd (projr ?u)), snd (snd (projr ?u)))"
    and v: "?v = Inr (fst (projr ?v), fst (snd (projr ?v)), snd (snd (projr ?v)))"
    by simp_all
  have a: "draws_agree 85 0 (modifiers_of Sharp_Attack)"
    using sharp_attack_values by blast
  have b: "draws_agree 7 0 (modifiers_of Heal)"
    using heal_values by blast
  from raw_dice_total_is_kept_and_explosion_rolls
         [of RANK_BONUSES fresh Sharp_Attack S A 85 "faces_source 100 [40, 50, 7, 9]"
             "fst (projr ?x)" "fst (snd (projr ?x))" "snd (snd (projr ?x))"
             "\<lambda>r. 0" fresh 0
             "fst (projr ?y)" "fst (snd (projr ?y))" "snd (snd (projr ?y))"] x y a
  have "rawDiceResult (fst (projr ?y)) = rawDiceResult (fst (projr ?x))"
    by blast
  moreover
  from raw_dice_total_is_kept_and_explosion_rolls
         [of RANK_BONUSES fresh Heal S A 7 "faces_source 20 [20, 19, 5, 17, 2]"
             "fst (projr ?u)" "fst (snd (projr ?u))" "snd (snd (projr ?u))"
             "\<lambda>r. 0" fresh 0
             "fst (projr ?v)" "fst (snd (projr ?v))" "snd (snd (projr ?v))"] u v b
  have "rawDiceResult (fst (projr ?v)) = rawDiceResult (fst (projr ?u))"
    by blast
  ultimately show ?thesis
    using sharp_attack_values heal_values by simp
qed

text \<open>
  Claim C3. For a group with \<open>keepHighest\<close> (or \<open>keepLowest\<close>) the claim wants the kept
  dice to be the largest (smallest) rolls, the group's sum to be their total, and the
  group's recorded rolls and its display to show all raw rolls beside the kept ones.
  \<open>rollDice\<close> returns the kept dice only, so the raw rolls are lost before the group is
  recorded: for the catalog action Recover (two d20, keep the highest) with the rolls
  \<open>5\<close> and \<open>18\<close>, the group records \<open>rolls = [18]\<close> and \<open>sum = 18\<close>, and the breakdown
  renders the kept die on both sides of the arrow; the roll \<open>5\<close> appears nowhere.
\<close>

theorem recover_loses_the_discarded_roll:
  "map_sum id (\<lambda>(r, c, s). (diceGroups (details r), breakdown (details r)))
     (calculateActionRoll fresh Recover E E 0 (faces_source 20 [5, 18]))
   = Inr ([\<lparr>g_type = ''2d20'', g_rolls = [18], g_sum = 18, g_keepHighest = Some 1,
            g_keepLowest = None\<rparr>],
          ''2d20[18'' @ arrow @ ''18]'')"
  by code_simp

text \<open>
  Claim C4, as stated, fails. The claim: a \<open>threshold_multiplier\<close> whose threshold is not
  met leaves the total unchanged and is still recorded in the modifier breakdown as
  "threshold not met". \<open>calculateActionRoll\<close> records a modifier only if its value is not
  \<open>0\<close>, its multiplier is not \<open>1\<close> or its type is \<open>explosion\<close>: with a total of \<open>18\<close>
  and the threshold \<open>85\<close> the modifier breakdown is empty.
\<close>

theorem threshold_not_met_is_not_recorded:
  "map_sum id (\<lambda>(r, c, s). (baseTotal (details r), finalResult (details r),
        modifierBreakdown (details r)))
     (calculateActionRoll fresh
        (with_modifiers Recover [ThresholdMultiplier 85 (Some [S \<mapsto> 2]) None]) S S 0
        (faces_source 20 [5, 18]))
   = Inr (18, Fin 18, [])"
  by code_simp

text \<open>
  Claim C4, amended. For every \<open>threshold_multiplier\<close> modifier: if the running total is
  at or above the threshold, the total is multiplied by the factor, where a per-rank
  table gives the entry of \<open>masteryRank\<close>, or the \<open>E\<close> entry when that entry is absent or
  \<open>0\<close>, and without a table the factor is the field \<open>multiplier\<close>; the details are
  "<rank> Critical", and the modifier is recorded in the modifier breakdown if and only
  if the factor is not \<open>1\<close>. If the total is below the threshold, the total is unchanged,
  \<open>applyModifier\<close> returns the details "Threshold <t> not met", and nothing is recorded
  in the modifier breakdown.
\<close>

theorem threshold_multiplier_applies_and_records:
  "by_rank table mr = (if table mr = None \<or> table mr = Some 0 then table E else table mr)
   \<and> threshold_factor (Some table) mo mr = by_rank table mr
   \<and> threshold_factor None mo mr = mo
   \<and> (js_ge cur (Fin t) \<longrightarrow>
        applyModifier (ThresholdMultiplier t tbl mo) cur al wr mr ob src
          = Inr (\<lparr>r_result = js_mul cur (to_number (threshold_factor tbl mo mr)),
                   r_details = rank_name mr @ '' Critical'',
                   r_multiplier = map_option Fin (threshold_factor tbl mo mr),
                   r_value = Some (Fin 0),
                   r_explosionRolls = None\<rparr>, src)
        \<and> (threshold_factor tbl mo mr \<noteq> Some 1 \<longrightarrow>
             modifier_loop (ThresholdMultiplier t tbl mo # ms) al wr mr ob cur ex mb raw src
               = modifier_loop ms al wr mr ob
                   (js_mul cur (to_number (threshold_factor tbl mo mr))) ex
                   (mb @ [\<lparr>m_type = ''threshold_multiplier'',
                            m_description = rank_name mr @ '' Critical'',
                            m_value = Fin 0,
                            m_multiplier =
                              or_default (map_option Fin (threshold_factor tbl mo mr)) (Fin 1),
                            m_explosionRolls = []\<rparr>]) raw src)
        \<and> (threshold_factor tbl mo mr = Some 1 \<longrightarrow>
             modifier_loop (ThresholdMultiplier t tbl mo # ms) al wr mr ob cur ex mb raw src
               = modifier_loop ms al wr mr ob (js_mul cur (Fin 1)) ex mb raw src))
   \<and> (\<not> js_ge cur (Fin t) \<longrightarrow>
        applyModifier (ThresholdMultiplier t tbl mo) cur al wr mr ob src
          = Inr (\<lparr>r_result = cur,
                   r_details = ''Threshold '' @ js_to_string (Fin t) @ '' not met'',
                   r_multiplier = Some (Fin 1),
                   r_value = Some (Fin 0),
                   r_explosionRolls = None\<rparr>, src)
        \<and> modifier_loop (ThresholdMultiplier t tbl mo # ms) al wr mr ob cur ex mb raw src
            = modifier_loop ms al wr mr ob cur ex mb raw src)"
proof (intro conjI impI)
  show "by_rank table mr = (if table mr = None \<or> table mr = Some 0 then table E else table mr)"
    by (rule by_rank_eq)
qed (simp_all add: Let_def is_recorded_def modifier_entry_def or_default_zero
       threshold_factor_def to_number_def)

lemma ninety_meets_threshold: "js_ge (Fin 90) (Fin 85)"
  by simp

lemma fifty_misses_threshold: "\<not> js_ge (Fin 50) (Fin 85)"
  by simp

theorem threshold_multiplier_applies_and_records_witness:
  "js_ge (Fin 90) (Fin 85) \<and> \<not> js_ge (Fin 50) (Fin 85)
   \<and> threshold_factor (Some [S \<mapsto> 2]) None S = Some 2
   \<and> applyModifier (ThresholdMultiplier 85 (Some [S \<mapsto> 2]) None) (Fin 90) [90] S S 0
        (faces_source 100 [])
      = Inr (\<lparr>r_result = Fin 180, r_details = ''S Critical'', r_multiplier = Some (Fin 2),
               r_value = Some (Fin 0), r_explosionRolls = None\<rparr>, faces_source 100 [])
   \<and> modifier_loop [ThresholdMultiplier 85 (Some [S \<mapsto> 2]) None] [90] S S 0 (Fin 90) [] [] 90
        (faces_source 100 [])
      = Inr (Fin 180, [],
             [\<lparr>m_type = ''threshold_multiplier'', m_description = ''S Critical'',
               m_value = Fin 0, m_multiplier = Fin 2, m_explosionRolls = []\<rparr>],
             90, faces_source 100 [])
   \<and> modifier_loop [ThresholdMultiplier 85 (Some [S \<mapsto> 2]) None] [50] S S 0 (Fin 50) [] [] 50
        (faces_source 100 [])
      = Inr (Fin 50, [], [], 50, faces_source 100 [])"
  using threshold_multiplier_applies_and_records
          [of "[S \<mapsto> 2]" S None "Fin 90" 85 "Some [S \<mapsto> 2]" "[90]" S 0 "faces_source 100 []"
              "[]" "[]" "[]" 90]
        threshold_multiplier_applies_and_records
          [of "[S \<mapsto> 2]" S None "Fin 50" 85 "Some [S \<mapsto> 2]" "[50]" S 0 "faces_source 100 []"
              "[]" "[]" "[]" 50]
        ninety_meets_threshold fifty_misses_threshold
  by (simp add: by_rank_def to_number_def or_default_def threshold_factor_def)

text \<open>
  Claim C5. For every explosion modifier and every die source, \<open>applyModifier\<close> returns a
  value: the cascade loop is at most \<open>10\<close> rounds of \<open>explosion_round\<close>, started with
  \<open>maxIterations = 10\<close>, after which the loop condition is false, also when every extra
  die explodes again; and it rolls at most ten extra dice for each die of the groups
  that is at or above the threshold.
\<close>

theorem explosion_cascade_within_ten_rounds:
  "(\<exists>res src1. applyModifier (Explosion t ch ed) cur al wr mr ob src = Inr (res, src1)
       \<and> length (case r_explosionRolls res of Some rs \<Rightarrow> rs | None \<Rightarrow> [])
            \<le> 10 * count_explosions t al)
   \<and> (\<exists>n. n \<le> 10
        \<and> explosion_loop t sd
             \<lparr>currentExplosions = e, maxIterations = 10, allExplosionRolls = [],
              explosionTotal = 0, totalTriggers = e, es_src = src\<rparr>
           = (explosion_round t sd ^^ n)
               \<lparr>currentExplosions = e, maxIterations = 10, allExplosionRolls = [],
                explosionTotal = 0, totalTriggers = e, es_src = src\<rparr>
        \<and> \<not> explosion_cond ((explosion_round t sd ^^ n)
               \<lparr>currentExplosions = e, maxIterations = 10, allExplosionRolls = [],
                explosionTotal = 0, totalTriggers = e, es_src = src\<rparr>))"
proof
  let ?st = "\<lparr>currentExplosions = count_explosions t al, maxIterations = 10,
     allExplosionRolls = [], explosionTotal = 0, totalTriggers = count_explosions t al,
     es_src = src\<rparr>"
  have "length (allExplosionRolls (explosion_loop t (ds_sides ed) ?st))
          \<le> 10 * count_explosions t al"
    using explosion_loop_length [of t "ds_sides ed" ?st] by simp
  then show "\<exists>res src1. applyModifier (Explosion t ch ed) cur al wr mr ob src = Inr (res, src1)
       \<and> length (case r_explosionRolls res of Some rs \<Rightarrow> rs | None \<Rightarrow> [])
            \<le> 10 * count_explosions t al"
    by (simp add: Let_def)
next
  let ?st = "\<lparr>currentExplosions = e, maxIterations = 10, allExplosionRolls = [],
              explosionTotal = 0, totalTriggers = e, es_src = src\<rparr>"
  show "\<exists>n. n \<le> 10 \<and> explosion_loop t sd ?st = (explosion_round t sd ^^ n) ?st
        \<and> \<not> explosion_cond ((explosion_round t sd ^^ n) ?st)"
    using explosion_loop_rounds [of ?st t sd] by simp
qed

text \<open>With one side and threshold \<open>1\<close> every extra die explodes again; one die of the
  groups then gives exactly ten extra rolls.\<close>

lemma one_sided_die_explodes_ten_times:
  "map_sum id (\<lambda>(res, s). r_explosionRolls res)
     (applyModifier (Explosion 1 None \<lparr>ds_count = 1, ds_sides = 1\<rparr>) (Fin 1) [1] E E 0
        (\<lambda>i. 0))
   = Inr (Some [1, 1, 1, 1, 1, 1, 1, 1, 1, 1])"
  by code_simp

theorem explosion_cascade_within_ten_rounds_witness:
  "(\<exists>res src1. applyModifier (Explosion 1 None \<lparr>ds_count = 1, ds_sides = 1\<rparr>) (Fin 1) [1] E E
        0 (\<lambda>i. 0) = Inr (res, src1)
       \<and> length (case r_explosionRolls res of Some rs \<Rightarrow> rs | None \<Rightarrow> [])
            \<le> 10 * count_explosions 1 [1])
   \<and> map_sum id (\<lambda>(res, s). r_explosionRolls res)
       (applyModifier (Explosion 1 None \<lparr>ds_count = 1, ds_sides = 1\<rparr>) (Fin 1) [1] E E 0
          (\<lambda>i. 0))
     = Inr (Some [1, 1, 1, 1, 1, 1, 1, 1, 1, 1])"
  using explosion_cascade_within_ten_rounds
          [of 1 None "\<lparr>ds_count = 1, ds_sides = 1\<rparr>" "Fin 1" "[1]" E E 0 "\<lambda>i. 0" 1 1]
        one_sided_die_explodes_ten_times
  by blast

text \<open>
  Claim C6, as stated, fails. The claim: with \<open>k = floor(b / r)\<close>, if \<open>k > 0\<close> the new
  total is the old total minus \<open>b\<close> plus the \<open>k * count\<close> new dice plus \<open>b mod r\<close>. The code
  tests \<open>extraDice > 0\<close>, where \<open>extraDice = k * count\<close>: with \<open>r = 40\<close>, \<open>b = 85\<close> and a
  target count of \<open>0\<close>, \<open>k\<close> is \<open>2\<close> and the total stays \<open>100\<close>, not \<open>100 - 85 + 0 + 5\<close>.
\<close>

theorem bonus_conversion_zero_count_unchanged:
  "(0::int) < 85 div 40
   \<and> map_sum id (\<lambda>(res, s). r_result res)
       (applyModifier (BonusConversion 40 \<lparr>ds_count = 0, ds_sides = 100\<rparr>) (Fin 100) [] E E 85
          (faces_source 100 []))
     = Inr (Fin 100)
   \<and> Fin 100 \<noteq> Fin (100 - 85 + 0 + of_int (85 mod 40))"
  by (simp add: Let_def)

text \<open>
  Claim C6, amended. For every \<open>bonus_conversion\<close> modifier with a conversion rate
  \<open>r \<noteq> 0\<close> and a target count \<open>c\<close>, and every \<open>otherBonuses\<close> \<open>b \<ge> 0\<close>: let
  \<open>k = floor(b / r)\<close> and \<open>n = k * c\<close>. If \<open>n > 0\<close>, the modifier rolls \<open>n\<close> dice of the
  target sides and the new total is the old total minus \<open>b\<close> (once) plus the sum of
  these dice plus the remainder \<open>b mod |r|\<close> (which is \<open>b mod r\<close> for a positive rate).
  If \<open>n \<le> 0\<close>, in particular if \<open>k = 0\<close>, the total is unchanged and no die is rolled.
\<close>

theorem bonus_conversion_total:
  "r \<noteq> 0 \<Longrightarrow> 0 \<le> b \<Longrightarrow>
   (0 < b div r * ds_count ctd \<longrightarrow>
      map_sum id (\<lambda>(res, s). (r_result res, r_explosionRolls res, s))
        (applyModifier (BonusConversion r ctd) cur al wr mr b src)
      = Inr (js_add (js_add (js_sub cur (Fin (of_int b)))
               (Fin (of_int (sum_list
                  (fst (rollTimes (nat (b div r * ds_count ctd)) (ds_sides ctd) src))))))
               (Fin (of_int (b mod \<bar>r\<bar>))),
             Some (fst (rollTimes (nat (b div r * ds_count ctd)) (ds_sides ctd) src)),
             snd (rollTimes (nat (b div r * ds_count ctd)) (ds_sides ctd) src))
      \<and> js_add (js_add (js_sub (Fin c) (Fin (of_int b)))
               (Fin (of_int (sum_list
                  (fst (rollTimes (nat (b div r * ds_count ctd)) (ds_sides ctd) src))))))
               (Fin (of_int (b mod \<bar>r\<bar>)))
        = Fin (c - of_int b
               + of_int (sum_list
                   (fst (rollTimes (nat (b div r * ds_count ctd)) (ds_sides ctd) src)))
               + of_int (b mod \<bar>r\<bar>)))
   \<and> (b div r * ds_count ctd \<le> 0 \<longrightarrow>
        map_sum id (\<lambda>(res, s). (r_result res, r_explosionRolls res, s))
          (applyModifier (BonusConversion r ctd) cur al wr mr b src)
        = Inr (cur, None, src))"
proof (intro conjI impI)
  assume r: "r \<noteq> 0" and b: "0 \<le> b"
  have c1: "\<lceil>(of_int (b div r) :: rat) * of_int (ds_count ctd)\<rceil> = b div r * ds_count ctd"
    by (simp only: ceiling_of_int flip: of_int_mult)
  have c2: "(0 < (of_int (b div r) :: rat) * of_int (ds_count ctd)) = (0 < b div r * ds_count ctd)"
    by (simp only: of_int_0_less_iff flip: of_int_mult)
  {
    assume pos: "0 < b div r * ds_count ctd"
    show "map_sum id (\<lambda>(res, s). (r_result res, r_explosionRolls res, s))
        (applyModifier (BonusConversion r ctd) cur al wr mr b src)
      = Inr (js_add (js_add (js_sub cur (Fin (of_int b)))
               (Fin (of_int (sum_list
                  (fst (rollTimes (nat (b div r * ds_count ctd)) (ds_sides ctd) src))))))
               (Fin (of_int (b mod \<bar>r\<bar>))),
             Some (fst (rollTimes (nat (b div r * ds_count ctd)) (ds_sides ctd) src)),
             snd (rollTimes (nat (b div r * ds_count ctd)) (ds_sides ctd) src))"
      using pos
      by (simp add: conversion_extra_dice [OF r] js_rem_int [OF b r] Let_def c1 c2
            del: js_div.simps js_rem.simps js_floor.simps js_mul.simps js_add.simps
            split: prod.splits)
  }
  {
    assume "b div r * ds_count ctd \<le> 0"
    then show "map_sum id (\<lambda>(res, s). (r_result res, r_explosionRolls res, s))
          (applyModifier (BonusConversion r ctd) cur al wr mr b src)
        = Inr (cur, None, src)"
      by (simp add: conversion_extra_dice [OF r] Let_def c1 c2
            del: js_div.simps js_rem.simps js_floor.simps js_mul.simps js_add.simps)
  }
  show "js_add (js_add (js_sub (Fin c) (Fin (of_int b)))
               (Fin (of_int (sum_list
                  (fst (rollTimes (nat (b div r * ds_count ctd)) (ds_sides ctd) src))))))
               (Fin (of_int (b mod \<bar>r\<bar>)))
        = Fin (c - of_int b
               + of_int (sum_list
                   (fst (rollTimes (nat (b div r * ds_count ctd)) (ds_sides ctd) src)))
               + of_int (b mod \<bar>r\<bar>))"
    by (simp add: js_sub_def)
qed

theorem bonus_conversion_total_witness:
  "(40::int) \<noteq> 0 \<and> (0::int) \<le> 85
   \<and> 0 < (85::int) div 40 * ds_count \<lparr>ds_count = 1, ds_sides = 100\<rparr>
   \<and> map_sum id (\<lambda>(res, s). (r_result res, r_explosionRolls res))
        (applyModifier (BonusConversion 40 \<lparr>ds_count = 1, ds_sides = 100\<rparr>) (Fin 225) [50] S A
           85 (faces_source 100 [7, 9]))
      = Inr (Fin 161, Some [7, 9])"
proof -
  have "map_sum id (\<lambda>(res, s). (r_result res, r_explosionRolls res))
        (applyModifier (BonusConversion 40 \<lparr>ds_count = 1, ds_sides = 100\<rparr>) (Fin 225) [50] S A
           85 (faces_source 100 [7, 9]))
      = Inr (Fin 161, Some [7, 9])"
    by code_simp
  then show ?thesis
    using bonus_conversion_total
            [of 40 85 "\<lparr>ds_count = 1, ds_sides = 100\<rparr>" "Fin 225" "[50]" S A
                "faces_source 100 [7, 9]" 225]
    by simp
qed

text \<open>
  Claim C7, as stated, fails. The claim: a per-rank table resolves to the entry of
  \<open>masteryRank\<close>, and to the \<open>E\<close> entry when that entry is absent. The lookup is
  \<open>table[masteryRank] || table.E\<close>, which takes the \<open>E\<close> entry also when the rank's entry
  is \<open>0\<close>: with the table \<open>{E: 1, S: 0}\<close> and mastery rank \<open>S\<close> the count is \<open>1\<close>, and the
  group is rolled (here it adds \<open>7\<close> to the total) instead of being skipped.
\<close>

theorem zero_table_entry_falls_back_to_E:
  "[E \<mapsto> 1, S \<mapsto> (0::int)] S = Some 0
   \<and> resolve_count ((plain_dice 1 20)\<lparr>diceByRank := Some [E \<mapsto> 1, S \<mapsto> 0]\<rparr>) E S = Some 1
   \<and> fst (dice_loop [(plain_dice 1 20)\<lparr>diceByRank := Some [E \<mapsto> 1, S \<mapsto> 0]\<rparr>] E S 0 0 []
            (faces_source 20 [7])) = 7"
  by (simp add: resolve_count_def plain_dice_def by_rank_def rollDice_def rollDie_def
        faces_source_def)

text \<open>
  Claim C7, amended. \<open>MR_LEVEL\<close> gives the level of \<open>masteryRank\<close> and \<open>WR_LEVEL\<close> the level
  of \<open>weaponRank\<close>, the levels of \<open>E\<close> .. \<open>S\<close> being \<open>0\<close> .. \<open>5\<close>. A per-rank table
  (\<open>diceByRank\<close>, else \<open>baseDiceByRank\<close>) replaces the count by the entry of \<open>masteryRank\<close>
  when that entry is present and not \<open>0\<close>, and by the \<open>E\<close> entry otherwise; without a
  table the count is the number given or the value of the variable. Whenever the
  resolved count is missing or \<open>\<le> 0\<close>, the group is skipped: the outcome of the whole
  evaluation, in every field, is the outcome without that group.
\<close>

theorem count_resolution_and_skipping:
  "resolveCountVariable ''MR_LEVEL'' wr mr = getRankLevel mr
   \<and> resolveCountVariable ''WR_LEVEL'' wr mr = getRankLevel wr
   \<and> map getRankLevel [E, D, C, B, A, S] = [0, 1, 2, 3, 4, 5]
   \<and> (diceByRank cfg = Some t \<longrightarrow>
        resolve_count cfg wr mr = (if t mr = None \<or> t mr = Some 0 then t E else t mr))
   \<and> (diceByRank cfg = None \<longrightarrow> baseDiceByRank cfg = Some t \<longrightarrow>
        resolve_count cfg wr mr = (if t mr = None \<or> t mr = Some 0 then t E else t mr))
   \<and> (diceByRank cfg = None \<longrightarrow> baseDiceByRank cfg = None \<longrightarrow>
        resolve_count cfg wr mr =
          (case count cfg of Num n \<Rightarrow> Some n | Str v \<Rightarrow> Some (resolveCountVariable v wr mr)))
   \<and> ((\<forall>c. resolve_count cfg wr mr = Some c \<longrightarrow> c \<le> 0) \<longrightarrow>
        calculateActionRoll this (with_dice act (xs @ cfg # ys)) wr mr ob src
          = calculateActionRoll this (with_dice act (xs @ ys)) wr mr ob src)"
proof (intro conjI impI)
  assume "\<forall>c. resolve_count cfg wr mr = Some c \<longrightarrow> c \<le> 0"
  then show "calculateActionRoll this (with_dice act (xs @ cfg # ys)) wr mr ob src
          = calculateActionRoll this (with_dice act (xs @ ys)) wr mr ob src"
    by (simp add: calculateActionRoll_def calc_with_dice dice_loop_skip)
qed (simp_all add: resolve_count_def by_rank_eq split: count.splits)

lemma rank_E_has_level_zero:
  "\<forall>c. resolve_count ((plain_dice 0 20)\<lparr>count := Str ''MR_LEVEL''\<rparr>) C E = Some c \<longrightarrow> c \<le> 0"
  by (simp add: resolve_count_def plain_dice_def)

theorem count_resolution_and_skipping_witness:
  "calculateActionRoll fresh
     (with_dice Stable_Attack [plain_dice 7 20, (plain_dice 0 20)\<lparr>count := Str ''MR_LEVEL''\<rparr>])
     C E 0 (faces_source 20 [1, 2, 3, 4, 5, 6, 7])
   = calculateActionRoll fresh (with_dice Stable_Attack [plain_dice 7 20])
       C E 0 (faces_source 20 [1, 2, 3, 4, 5, 6, 7])
   \<and> diceByRank ((plain_dice 1 100)\<lparr>diceByRank := Some [E \<mapsto> 1, B \<mapsto> 2]\<rparr>) = Some [E \<mapsto> 1, B \<mapsto> 2]
   \<and> resolve_count ((plain_dice 1 100)\<lparr>diceByRank := Some [E \<mapsto> 1, B \<mapsto> 2]\<rparr>) E B = Some 2
   \<and> resolve_count ((plain_dice 1 100)\<lparr>diceByRank := Some [E \<mapsto> 1, B \<mapsto> 2]\<rparr>) E A = Some 1"
  using count_resolution_and_skipping
          [of C E "(plain_dice 0 20)\<lparr>count := Str ''MR_LEVEL''\<rparr>" "Map.empty" fresh Stable_Attack
              "[plain_dice 7 20]" "[]" 0 "faces_source 20 [1, 2, 3, 4, 5, 6, 7]"]
        count_resolution_and_skipping
          [of E B "(plain_dice 1 100)\<lparr>diceByRank := Some [E \<mapsto> 1, B \<mapsto> 2]\<rparr>" "[E \<mapsto> 1, B \<mapsto> 2]"]
        count_resolution_and_skipping
          [of E A "(plain_dice 1 100)\<lparr>diceByRank := Some [E \<mapsto> 1, B \<mapsto> 2]\<rparr>" "[E \<mapsto> 1, B \<mapsto> 2]"]
        rank_E_has_level_zero
  by (simp add: plain_dice_def)

text \<open>
  Claim C8. The result of \<open>calculateActionRoll\<close> is a function of the action, the ranks,
  \<open>otherBonuses\<close> and the die source: the state that earlier calls left in the calculator
  instance has no influence on it (nor on the state the call leaves).
\<close>

theorem evaluation_is_deterministic:
  "calculateActionRoll this1 act wr mr ob src = calculateActionRoll this2 act wr mr ob src"
  by (cases this1, cases this2) (simp add: calculateActionRoll_def calculateActionRoll_tbl_def)

text \<open>
  Claim C9. An \<open>aoe_divisor\<close> or \<open>conditional\<close> modifier returns the running total as it
  is and takes nothing from the die source, whatever its parameters; and an action gives
  the same outcome, in every field, with such a modifier at any place of its list as
  without it.
\<close>

theorem aoe_divisor_and_conditional_are_noops:
  "calculateActionRoll this (with_modifiers act (xs @ AoeDivisor d # ys)) wr mr ob src
     = calculateActionRoll this (with_modifiers act (xs @ ys)) wr mr ob src
   \<and> calculateActionRoll this (with_modifiers act (xs @ Conditional c v # ys)) wr mr ob src
     = calculateActionRoll this (with_modifiers act (xs @ ys)) wr mr ob src
   \<and> map_sum id (\<lambda>(res, s). (r_result res, s)) (applyModifier (AoeDivisor d) cur al wr mr ob src)
     = Inr (cur, src)
   \<and> map_sum id (\<lambda>(res, s). (r_result res, s))
       (applyModifier (Conditional c v) cur al wr mr ob src)
     = Inr (cur, src)"
  by (simp add: calculateActionRoll_def calc_with_modifiers noop_anywhere)

text \<open>
  Claim C10. The \<open>chance\<close> field of an explosion modifier is never read: two actions whose
  modifiers differ only in \<open>chance\<close> fields (present with any value, or absent) give the
  same outcome on the same die source. Whatever the \<open>chance\<close>, every roll of the groups
  at or above the threshold triggers an explosion: the extra rolls of the modifier are
  the cascade of the specification, started with one extra die, taken from the die
  source, for each such roll, and their sum is added to the running total.
\<close>

theorem chance_is_never_read:
  "(map drop_chance ms1 = map drop_chance ms2 \<longrightarrow>
      calculateActionRoll this (with_modifiers act ms1) wr mr ob src
        = calculateActionRoll this (with_modifiers act ms2) wr mr ob src)
   \<and> applyModifier (Explosion t ch ed) cur al wr mr ob src
       = applyModifier (Explosion t None ed) cur al wr mr ob src
   \<and> (\<exists>res src1.
         applyModifier (Explosion t ch ed) cur al wr mr ob src = Inr (res, src1)
         \<and> (case r_explosionRolls res of Some rs \<Rightarrow> rs | None \<Rightarrow> [])
             = cascade 10 t (ds_sides ed) (length (filter (\<lambda>roll. t \<le> of_int roll) al)) src
         \<and> r_result res
             = js_add cur (Fin (of_int (sum_list
                 (cascade 10 t (ds_sides ed)
                    (length (filter (\<lambda>roll. t \<le> of_int roll) al)) src)))))
   \<and> (\<exists>zs. cascade 10 t sd n src = map (\<lambda>i. \<lfloor>src i * of_int sd\<rfloor> + 1) [0..<n] @ zs)"
proof (intro conjI impI)
  assume eq: "map drop_chance ms1 = map drop_chance ms2"
  have "modifier_loop ms1 rolls wr mr ob fr ex mb raw s
          = modifier_loop ms2 rolls wr mr ob fr ex mb raw s" for rolls fr ex mb raw s
    using drop_chance_loop [of ms1] drop_chance_loop [of ms2] eq by simp
  then show "calculateActionRoll this (with_modifiers act ms1) wr mr ob src
        = calculateActionRoll this (with_modifiers act ms2) wr mr ob src"
    by (simp add: calculateActionRoll_def calc_with_modifiers)
next
  show "applyModifier (Explosion t ch ed) cur al wr mr ob src
       = applyModifier (Explosion t None ed) cur al wr mr ob src"
    by simp
next
  show "\<exists>res src1.
         applyModifier (Explosion t ch ed) cur al wr mr ob src = Inr (res, src1)
         \<and> (case r_explosionRolls res of Some rs \<Rightarrow> rs | None \<Rightarrow> [])
             = cascade 10 t (ds_sides ed) (length (filter (\<lambda>roll. t \<le> of_int roll) al)) src
         \<and> r_result res
             = js_add cur (Fin (of_int (sum_list
                 (cascade 10 t (ds_sides ed)
                    (length (filter (\<lambda>roll. t \<le> of_int roll) al)) src))))"
    by (rule explosion_is_cascade)
next
  have "cascade (Suc 9) t sd n src
          = (if n = 0 then []
             else die_faces n sd src
                  @ cascade 9 t sd (length (filter (\<lambda>roll. t \<le> of_int roll) (die_faces n sd src)))
                      (after_rolls n src))"
    by (rule cascade.simps(2))
  then show "\<exists>zs. cascade 10 t sd n src = map (\<lambda>i. \<lfloor>src i * of_int sd\<rfloor> + 1) [0..<n] @ zs"
    by (cases "n = 0") (simp_all add: die_faces_def del: cascade.simps)
qed

lemma explosion_values:
  "map_sum id (\<lambda>(res, s). (r_result res, r_explosionRolls res, r_details res))
     (applyModifier (Explosion 17 (Some (2 / 10)) \<lparr>ds_count = 1, ds_sides = 20\<rparr>) (Fin 42)
        [20, 19, 3] S A 0 (faces_source 20 [5, 17, 2]))
   = Inr (Fin 66, Some [5, 17, 2], ''3 explosions'')"
  by code_simp

lemma cascade_values:
  "cascade 10 17 20 (length (filter (\<lambda>roll. 17 \<le> rat_of_int roll) [20, 19, 3]))
     (faces_source 20 [5, 17, 2]) = [5, 17, 2]"
  by code_simp

lemma heal_explosion_values:
  "map_sum id (\<lambda>(r, c, s). (result r, rawDiceResult r, explosionRolls (details r)))
     (calculateActionRoll fresh
        (with_modifiers Heal [Explosion 17 None \<lparr>ds_count = 1, ds_sides = 20\<rparr>, AoeDivisor 3])
        S A 7 (faces_source 20 [20, 19, 5, 17, 2]))
   = Inr (Fin 160, 63, [5, 17, 2])"
  by code_simp

theorem chance_is_never_read_witness:
  "map drop_chance [Explosion 17 (Some (2 / 10)) \<lparr>ds_count = 1, ds_sides = 20\<rparr>, AoeDivisor 3]
     = map drop_chance [Explosion 17 None \<lparr>ds_count = 1, ds_sides = 20\<rparr>, AoeDivisor 3]
   \<and> map_sum id (\<lambda>(r, c, s). (result r, rawDiceResult r, explosionRolls (details r)))
       (calculateActionRoll fresh
          (with_modifiers Heal
             [Explosion 17 (Some (2 / 10)) \<lparr>ds_count = 1, ds_sides = 20\<rparr>, AoeDivisor 3])
          S A 7 (faces_source 20 [20, 19, 5, 17, 2]))
     = Inr (Fin 160, 63, [5, 17, 2])
   \<and> map_sum id (\<lambda>(r, c, s). (result r, rawDiceResult r, explosionRolls (details r)))
       (calculateActionRoll fresh
          (with_modifiers Heal [Explosion 17 None \<lparr>ds_count = 1, ds_sides = 20\<rparr>, AoeDivisor 3])
          S A 7 (faces_source 20 [20, 19, 5, 17, 2]))
     = Inr (Fin 160, 63, [5, 17, 2])
   \<and> map_sum id (\<lambda>(res, s). (r_result res, r_explosionRolls res, r_details res))
       (applyModifier (Explosion 17 (Some (2 / 10)) \<lparr>ds_count = 1, ds_sides = 20\<rparr>) (Fin 42)
          [20, 19, 3] S A 0 (faces_source 20 [5, 17, 2]))
     = Inr (Fin 66, Some [5, 17, 2], ''3 explosions'')
   \<and> cascade 10 17 20 (length (filter (\<lambda>roll. 17 \<le> rat_of_int roll) [20, 19, 3]))
        (faces_source 20 [5, 17, 2]) = [5, 17, 2]"
proof -
  have d: "map drop_chance
             [Explosion 17 (Some (2 / 10)) \<lparr>ds_count = 1, ds_sides = 20\<rparr>, AoeDivisor 3]
     = map drop_chance [Explosion 17 None \<lparr>ds_count = 1, ds_sides = 20\<rparr>, AoeDivisor 3]"
    by simp
  with chance_is_never_read
         [of "[Explosion 17 (Some (2 / 10)) \<lparr>ds_count = 1, ds_sides = 20\<rparr>, AoeDivisor 3]"
              "[Explosion 17 None \<lparr>ds_count = 1, ds_sides = 20\<rparr>, AoeDivisor 3]"
              fresh Heal S A 7 "faces_source 20 [20, 19, 5, 17, 2]"]
  have e: "calculateActionRoll fresh
          (with_modifiers Heal
             [Explosion 17 (Some (2 / 10)) \<lparr>ds_count = 1, ds_sides = 20\<rparr>, AoeDivisor 3])
          S A 7 (faces_source 20 [20, 19, 5, 17, 2])
        = calculateActionRoll fresh
          (with_modifiers Heal [Explosion 17 None \<lparr>ds_count = 1, ds_sides = 20\<rparr>, AoeDivisor 3])
          S A 7 (faces_source 20 [20, 19, 5, 17, 2])"
    by blast
  have v: "map_sum id (\<lambda>(r, c, s). (result r, rawDiceResult r, explosionRolls (details r)))
       (calculateActionRoll fresh
          (with_modifiers Heal
             [Explosion 17 (Some (2 / 10)) \<lparr>ds_count = 1, ds_sides = 20\<rparr>, AoeDivisor 3])
          S A 7 (faces_source 20 [20, 19, 5, 17, 2]))
     = Inr (Fin 160, 63, [5, 17, 2])"
    by (simp only: e heal_explosion_values)
  from d v heal_explosion_values explosion_values cascade_values show ?thesis
    by (intro conjI)
qed

end
